theory Spec2Isabelle
  imports Complex_Main
begin

section \<open>JavaScript values\<close>

text \<open>
  The values that flow through \<^verbatim>\<open>lib/types/response.js\<close>: header values, schema defaults,
  response bodies and the results of value conversion. \<open>JUndefined\<close> is JavaScript's
  \<^verbatim>\<open>undefined\<close>, \<open>JDate\<close> a \<^verbatim>\<open>Date\<close> object (what \<^verbatim>\<open>_.isDate\<close> recognises), \<open>JObj\<close> a plain object
  with its own properties in insertion order, \<open>JFunction\<close> a function object, given by its
  name.
\<close>

datatype jsval =
    JUndefined
  | JNull
  | JBool bool
  | JNum real
  | JNaN
  | JStr string
  | JDate int
  | JArr "jsval list"
  | JObj "(string \<times> jsval) list"
  | JFunction string

text \<open>A JSON object of the resolved document: a schema, with \<^verbatim>\<open>schema.default\<close> and so on.\<close>

type_synonym schema = "(string \<times> jsval) list"

text \<open>Property access \<^verbatim>\<open>obj.k\<close>: \<^verbatim>\<open>undefined\<close> when the object has no such property.\<close>

definition getProp :: "(string \<times> jsval) list \<Rightarrow> string \<Rightarrow> jsval" where
  "getProp obj k = (case map_of obj k of None \<Rightarrow> JUndefined | Some v \<Rightarrow> v)"

text \<open>JavaScript's truthiness, which decides \<^verbatim>\<open>a || b\<close>.\<close>

fun truthy :: "jsval \<Rightarrow> bool" where
  "truthy JUndefined = False"
| "truthy JNull = False"
| "truthy (JBool b) = b"
| "truthy (JNum x) = (x \<noteq> 0)"
| "truthy JNaN = False"
| "truthy (JStr s) = (s \<noteq> [])"
| "truthy (JDate t) = True"
| "truthy (JArr xs) = True"
| "truthy (JObj kvs) = True"
| "truthy (JFunction f) = True"

definition js_or :: "jsval \<Rightarrow> jsval \<Rightarrow> jsval" where
  "js_or a b = (if truthy a then a else b)"

fun isDate :: "jsval \<Rightarrow> bool" where
  "isDate (JDate t) = True"
| "isDate v = False"

text \<open>
  \<^verbatim>\<open>String.prototype.toLowerCase\<close> on header names, which are ASCII tokens: the letters
  \<open>A\<close> to \<open>Z\<close> are mapped to \<open>a\<close> to \<open>z\<close>, every other character is kept.
\<close>

definition lower_char :: "char \<Rightarrow> char" where
  "lower_char c =
     (case map_of (zip ''ABCDEFGHIJKLMNOPQRSTUVWXYZ'' ''abcdefghijklmnopqrstuvwxyz'') c of
        None \<Rightarrow> c
      | Some l \<Rightarrow> l)"

definition toLowerCase :: "string \<Rightarrow> string" where
  "toLowerCase s = map lower_char s"

text \<open>
  String concatenation \<^verbatim>\<open>'...' + x\<close> with an operand that may be \<^verbatim>\<open>undefined\<close>: the text
  \<^verbatim>\<open>undefined\<close> is appended then.
\<close>

definition str :: "string option \<Rightarrow> string" where
  "str x = (case x of None \<Rightarrow> ''undefined'' | Some s \<Rightarrow> s)"

section \<open>Error objects and validation results\<close>

text \<open>
  A nested error \<^verbatim>\<open>{code, message, path}\<close>. The fields are optional because the source
  builds such a record from a caught exception (\<^verbatim>\<open>err.code\<close>, \<^verbatim>\<open>err.message\<close>,
  \<^verbatim>\<open>err.path\<close>), any of which can be \<^verbatim>\<open>undefined\<close>.
\<close>

record nested_error =
  ne_code :: "string option"
  ne_message :: "string option"
  ne_path :: "string list option"

text \<open>The exception object \<^verbatim>\<open>err\<close> that the two \<^verbatim>\<open>catch\<close> blocks read.\<close>

record thrown =
  err_errors :: "nested_error list option"
  err_code :: "string option"
  err_message :: "string option"
  err_path :: "string list option"

text \<open>
  An entry of \<^verbatim>\<open>results.errors\<close>. \<open>e_errors\<close> is absent on a Content-Type or response-code
  error, \<open>e_name\<close> is present on header errors only, and \<open>e_path\<close> can be \<^verbatim>\<open>undefined\<close>
  (\<^verbatim>\<open>path: err.path\<close>).
\<close>

record verror =
  e_code :: string
  e_errors :: "nested_error list option"
  e_message :: string
  e_name :: "string option"
  e_path :: "string list option"

record results =
  errors :: "verror list"
  warnings :: "verror list"

text \<open>\<^verbatim>\<open>results.errors.push(e)\<close>, with the mutated object returned.\<close>

definition push_error :: "verror \<Rightarrow> results \<Rightarrow> results" where
  "push_error e r = r\<lparr>errors := errors r @ [e]\<rparr>"

section \<open>Collaborators of the response model\<close>

text \<open>
  The options object handed to \<^verbatim>\<open>convertValue\<close>: \<^verbatim>\<open>{collectionFormat: ...}\<close> for a header,
  \<^verbatim>\<open>{encoding: ...}\<close> for the body; a property that is not set reads as \<^verbatim>\<open>undefined\<close>.
\<close>

record conv_options =
  collectionFormat :: jsval
  encoding :: jsval

text \<open>
  \<^verbatim>\<open>lib/types/response.js\<close> calls functions that live in other modules. The value
  convertor and the schema validator are parameters of the model, and so is the wording of the
  engine's \<^verbatim>\<open>TypeError\<close>:
  \<^item> \<open>convertValue\<close> is \<^verbatim>\<open>operationObject.api.plugin.convertValue(schema, options, value)\<close>;
    it either throws (\<open>Inl\<close>) or returns the converted value (\<open>Inr\<close>), as the
    \<^verbatim>\<open>try\<close>/\<^verbatim>\<open>catch\<close> around each call says;
  \<^item> \<open>validateAgainstSchema\<close> is \<^verbatim>\<open>sHelpers.validateAgainstSchema(jsonValidator, schema,
    value)\<close>, of which only the \<^verbatim>\<open>errors\<close> array is read. It is the schema validator adapter
    \<^verbatim>\<open>validate(schema, value) \<rightarrow> {errors: [{code, message, path}]}\<close>, which returns and does
    not throw;
  \<^item> \<open>typeErrorMessage k\<close> is the text of the engine's \<^verbatim>\<open>TypeError\<close> for reading property
    \<open>k\<close> of \<^verbatim>\<open>undefined\<close>;
  \<^item> \<open>contentTypeOfValue v\<close> is the media type (or none) that the Content-Type negotiator
    \<^verbatim>\<open>sHelpers.validateContentType\<close> works with when it is handed a value \<open>v\<close> that is neither
    \<^verbatim>\<open>undefined\<close> nor a string; the specification describes the negotiator for a media type
    or an absent one only.
\<close>

record env =
  convertValue :: "schema \<Rightarrow> conv_options \<Rightarrow> jsval \<Rightarrow> thrown + jsval"
  validateAgainstSchema :: "schema \<Rightarrow> jsval \<Rightarrow> nested_error list"
  typeErrorMessage :: "string \<Rightarrow> string"
  contentTypeOfValue :: "jsval \<Rightarrow> string option"

text \<open>
  The \<^verbatim>\<open>TypeError\<close> raised by \<^verbatim>\<open>headers[k]\<close> when \<^verbatim>\<open>headers\<close> is \<^verbatim>\<open>undefined\<close>: an \<^verbatim>\<open>Error\<close>
  with a message and no \<^verbatim>\<open>errors\<close>, \<^verbatim>\<open>code\<close> or \<^verbatim>\<open>path\<close> property.
\<close>

definition typeError :: "env \<Rightarrow> string \<Rightarrow> thrown" where
  "typeError E k =
     \<lparr>err_errors = None, err_code = None, err_message = Some (typeErrorMessage E k),
      err_path = None\<rparr>"

section \<open>Content-Type negotiation\<close>

text \<open>
  Modelled from the spec: the enumeration of the supported types in the negotiator's message,
  separated by a comma and a space as in the messages \<^verbatim>\<open>test-operation.js\<close> expects.
\<close>

fun join :: "string list \<Rightarrow> string" where
  "join [] = []"
| "join [x] = x"
| "join (x # y # ys) = x @ '', '' @ join (y # ys)"

text \<open>
  Modelled from the spec: the type/subtype portion of a media type, with parameters such as
  \<^verbatim>\<open>; charset=utf-8\<close> stripped: everything before the first \<open>;\<close>.
\<close>

definition stripParameters :: "string \<Rightarrow> string" where
  "stripParameters contentType = takeWhile (\<lambda>c. c \<noteq> CHR '';'') contentType"

text \<open>
  Modelled from the spec: \<^verbatim>\<open>sHelpers.validateContentType(contentType, supportedTypes, results)\<close>
  of \<^verbatim>\<open>lib/helpers.js\<close>, which is called by \<^verbatim>\<open>response.js\<close> and is not among the sources.
  The negotiator takes an actual media type (or none) and the declared media types. An absent
  Content-Type is treated as \<^verbatim>\<open>application/octet-stream\<close>; a type is acceptable when its
  type/subtype portion (parameters stripped) is declared, or when the full string is declared;
  there is no wildcard matching. The outcome is either nothing or one error
  \<^verbatim>\<open>INVALID_CONTENT_TYPE\<close> with \<^verbatim>\<open>path: []\<close>, whose message lists the supported types in the
  wording the tests of \<^verbatim>\<open>test-operation.js\<close> expect.
\<close>

definition validateContentType :: "string option \<Rightarrow> string list \<Rightarrow> results \<Rightarrow> results" where
  "validateContentType contentType supportedTypes res =
     (let rawContentType =
            (case contentType of None \<Rightarrow> ''application/octet-stream'' | Some ct \<Rightarrow> ct);
          mediaType = stripParameters rawContentType
      in if rawContentType \<in> set supportedTypes \<or> mediaType \<in> set supportedTypes then res
         else push_error
                \<lparr>e_code = ''INVALID_CONTENT_TYPE'', e_errors = None,
                 e_message = ''Invalid Content-Type ('' @ mediaType @
                             '').  These are supported: '' @ join supportedTypes,
                 e_name = None, e_path = Some []\<rparr> res)"

text \<open>
  Modelled from the spec: the actual media type that the negotiator is given when
  \<^verbatim>\<open>response.js\<close> hands it the value read from \<^verbatim>\<open>headers['content-type']\<close>: absent when the
  value is \<^verbatim>\<open>undefined\<close>, the string when it is a string.
\<close>

definition mediaTypeOf :: "env \<Rightarrow> jsval \<Rightarrow> string option" where
  "mediaTypeOf E v =
     (case v of
        JUndefined \<Rightarrow> None
      | JStr s \<Rightarrow> Some s
      | _ \<Rightarrow> contentTypeOfValue E v)"

section \<open>The Response object and its validation\<close>

text \<open>
  The fields of a \<^verbatim>\<open>Response\<close> that \<^verbatim>\<open>validateResponse\<close> reads:
  \<^item> \<open>definition_schema\<close> is \<^verbatim>\<open>this.definition.schema\<close>, \<open>None\<close> when the definition has none;
  \<^item> \<open>headers\<close> is \<^verbatim>\<open>this.headers\<close> (the definition's \<^verbatim>\<open>headers\<close>, assigned to the object by
    the constructor): header name and header schema in declaration order, empty when the
    definition declares none;
  \<^item> \<open>statusCode\<close> is \<^verbatim>\<open>this.statusCode\<close>, a string such as \<^verbatim>\<open>'200'\<close> or \<^verbatim>\<open>'default'\<close>;
  \<^item> \<open>produces\<close> is \<^verbatim>\<open>this.operationObject.produces\<close>.
\<close>

record response =
  definition_schema :: "schema option"
  headers :: "(string \<times> schema) list"
  statusCode :: string
  produces :: "string list"

text \<open>
  The \<^verbatim>\<open>headers\<close> argument is an object, or \<open>None\<close> when the caller passes \<^verbatim>\<open>undefined\<close> (or
  leaves the argument out). An object has its own properties, of any value, and the properties
  it inherits along its prototype chain. Accessor properties and proxies are not modelled.
\<close>

record js_object =
  own :: "string \<rightharpoonup> jsval"
  inherited :: "string \<rightharpoonup> jsval"

text \<open>
  The property read \<^verbatim>\<open>headers[k]\<close>: the own property when there is one, otherwise the
  inherited one, otherwise \<^verbatim>\<open>undefined\<close>.
\<close>

definition header :: "js_object \<Rightarrow> string \<Rightarrow> jsval" where
  "header h k =
     (case own h k of
        Some v \<Rightarrow> v
      | None \<Rightarrow> (case inherited h k of Some v \<Rightarrow> v | None \<Rightarrow> JUndefined))"

text \<open>
  What every object created by an object literal inherits: the members of
  \<^verbatim>\<open>Object.prototype\<close>, which are functions, and \<^verbatim>\<open>__proto__\<close>, which reads as the prototype
  object itself.
\<close>

definition objectPrototype :: "string \<rightharpoonup> jsval" where
  "objectPrototype =
     map_of
       [(''constructor'', JFunction ''Object''),
        (''toString'', JFunction ''toString''),
        (''toLocaleString'', JFunction ''toLocaleString''),
        (''valueOf'', JFunction ''valueOf''),
        (''hasOwnProperty'', JFunction ''hasOwnProperty''),
        (''isPrototypeOf'', JFunction ''isPrototypeOf''),
        (''propertyIsEnumerable'', JFunction ''propertyIsEnumerable''),
        (''__defineGetter__'', JFunction ''__defineGetter__''),
        (''__defineSetter__'', JFunction ''__defineSetter__''),
        (''__lookupGetter__'', JFunction ''__lookupGetter__''),
        (''__lookupSetter__'', JFunction ''__lookupSetter__''),
        (''__proto__'', JObj [])]"

text \<open>
  An object that inherits nothing and whose properties are the strings of a map from header
  name to header value.
\<close>

definition stringHeaders :: "(string \<rightharpoonup> string) \<Rightarrow> js_object" where
  "stringHeaders m = \<lparr>own = (\<lambda>k. map_option JStr (m k)), inherited = Map.empty\<rparr>"

text \<open>The object literal \<^verbatim>\<open>{k1: v1, ...}\<close>.\<close>

definition plainObject :: "(string \<times> jsval) list \<Rightarrow> js_object" where
  "plainObject kvs = \<lparr>own = map_of kvs, inherited = objectPrototype\<rparr>"

text \<open>
  The value handed to the convertor for a declared header:
  \<^verbatim>\<open>headers[name.toLowerCase()] || headers[name] || schema.default\<close>.
\<close>

definition headerLookup :: "js_object \<Rightarrow> string \<Rightarrow> schema \<Rightarrow> jsval" where
  "headerLookup h name sch =
     js_or (js_or (header h (toLowerCase name)) (header h name)) (getProp sch ''default'')"

text \<open>
  The \<^verbatim>\<open>try\<close> block of the header loop. With \<^verbatim>\<open>headers\<close> undefined the argument expression
  raises a \<^verbatim>\<open>TypeError\<close> at \<^verbatim>\<open>headers[name.toLowerCase()]\<close>, inside the \<^verbatim>\<open>try\<close>.
\<close>

definition convertHeader :: "env \<Rightarrow> js_object option \<Rightarrow> string \<Rightarrow> schema \<Rightarrow> thrown + jsval" where
  "convertHeader E hdrs name sch =
     (case hdrs of
        None \<Rightarrow> Inl (typeError E (toLowerCase name))
      | Some h \<Rightarrow>
          convertValue E sch
            \<lparr>collectionFormat = getProp sch ''collectionFormat'', encoding = JUndefined\<rparr>
            (headerLookup h name sch))"

text \<open>
  The callback of \<^verbatim>\<open>_.forEach(this.headers, function (schema, name) ...)\<close>: the \<^verbatim>\<open>catch\<close> pushes
  an error and leaves \<^verbatim>\<open>headerValue\<close> undefined; a value that is neither undefined nor a date
  is then validated against the header schema.
\<close>

definition validateHeader :: "env \<Rightarrow> js_object option \<Rightarrow> string \<times> schema \<Rightarrow> results \<Rightarrow> results" where
  "validateHeader E hdrs entry res =
     (let name = fst entry; sch = snd entry;
          attempt = convertHeader E hdrs name sch;
          headerValue = (case attempt of Inl err \<Rightarrow> JUndefined | Inr v \<Rightarrow> v);
          res1 =
            (case attempt of
               Inl err \<Rightarrow>
                 push_error
                   \<lparr>e_code = ''INVALID_RESPONSE_HEADER'',
                    e_errors =
                      (case err_errors err of
                         Some es \<Rightarrow> Some es
                       | None \<Rightarrow>
                           Some [\<lparr>ne_code = err_code err, ne_message = err_message err,
                                  ne_path = err_path err\<rparr>]),
                    e_message = ''Invalid header ('' @ name @ ''): '' @ str (err_message err),
                    e_name = Some name,
                    e_path = err_path err\<rparr> res
             | Inr v \<Rightarrow> res)
      in if headerValue \<noteq> JUndefined \<and> \<not> isDate headerValue then
           (let hvErrors = validateAgainstSchema E sch headerValue
            in if length hvErrors > 0 then
                 push_error
                   \<lparr>e_code = ''INVALID_RESPONSE_HEADER'',
                    e_errors = Some hvErrors,
                    e_message = ''Invalid header ('' @ name @ ''): '' @
                      (if length hvErrors > 1 then ''Value failed JSON Schema validation''
                       else str (ne_message (hvErrors ! 0))),
                    e_name = Some name,
                    e_path = Some []\<rparr> res1
               else res1)
         else res1)"

text \<open>
  The body block. A conversion that throws yields the single nested error built by the
  \<^verbatim>\<open>catch\<close>; otherwise the converted body is validated against the response schema.
\<close>

definition validateBody :: "env \<Rightarrow> schema \<Rightarrow> jsval \<Rightarrow> jsval \<Rightarrow> results \<Rightarrow> results" where
  "validateBody E sch body enc res =
     (let bvErrors =
            (case convertValue E sch \<lparr>collectionFormat = JUndefined, encoding = enc\<rparr> body of
               Inl err \<Rightarrow>
                 [\<lparr>ne_code = err_code err, ne_message = err_message err, ne_path = err_path err\<rparr>]
             | Inr bodyValue \<Rightarrow> validateAgainstSchema E sch bodyValue)
      in if length bvErrors > 0 then
           push_error
             \<lparr>e_code = ''INVALID_RESPONSE_BODY'',
              e_errors = Some bvErrors,
              e_message = ''Invalid body: '' @
                (if length bvErrors > 1 then ''Value failed JSON Schema validation''
                 else str (ne_message (bvErrors ! 0))),
              e_name = None,
              e_path = Some []\<rparr> res
         else res)"

text \<open>
  The guard of both the Content-Type check and the body check:
  \<^verbatim>\<open>!_.isUndefined(this.definition.schema) && _.indexOf(['204', '304'], this.statusCode) === -1\<close>.
\<close>

definition hasBody :: "response \<Rightarrow> bool" where
  "hasBody this = (definition_schema this \<noteq> None \<and> statusCode this \<notin> set [''204'', ''304''])"

text \<open>
  \<^verbatim>\<open>Response.prototype.validateResponse(headers, body, encoding)\<close>. The result is \<open>Inr\<close> of the
  results object, or \<open>Inl\<close> of the exception that leaves the function: the only statement
  outside a \<^verbatim>\<open>try\<close> that can raise is \<^verbatim>\<open>headers['content-type']\<close>, when \<^verbatim>\<open>headers\<close> is
  undefined. The value read there is handed to the Content-Type negotiator.
\<close>

definition validateResponse ::
  "env \<Rightarrow> response \<Rightarrow> js_object option \<Rightarrow> jsval \<Rightarrow> jsval \<Rightarrow> thrown + results" where
  "validateResponse E this hdrs body enc =
     (let res0 = \<lparr>errors = [], warnings = []\<rparr>;
          checked =
            (if hasBody this then
               (case hdrs of
                  None \<Rightarrow> Inl (typeError E ''content-type'')
                | Some h \<Rightarrow>
                    Inr (validateContentType (mediaTypeOf E (header h ''content-type''))
                           (produces this) res0))
             else Inr res0)
      in case checked of
           Inl err \<Rightarrow> Inl err
         | Inr res1 \<Rightarrow>
             (let res2 = fold (validateHeader E hdrs) (headers this) res1
              in Inr (case definition_schema this of
                        None \<Rightarrow> res2
                      | Some sch \<Rightarrow>
                          if hasBody this then validateBody E sch body enc res2 else res2)))"

section \<open>The Operation model\<close>

text \<open>
  \<^verbatim>\<open>lib/types/operation.js\<close> and the construction of operations are not among the sources; what
  follows is written from the specification, the API documentation (\<^verbatim>\<open>docs/API.md\<close>) and the
  expectations of \<^verbatim>\<open>test/versions/2.0/test-operation.js\<close>.
\<close>

text \<open>
  The \<^verbatim>\<open>statusCode\<close> argument of \<^verbatim>\<open>Operation.prototype.validateResponse\<close> is a number, or
  \<^verbatim>\<open>undefined\<close> (\<open>None\<close>) when it is omitted; \<open>string_of_nat\<close> is its decimal string form.
\<close>

function string_of_nat :: "nat \<Rightarrow> string" where
  "string_of_nat n =
     (if n < 10 then [''0123456789'' ! n]
      else string_of_nat (n div 10) @ [''0123456789'' ! (n mod 10)])"
  by pat_completeness auto
termination
  by (relation "measure id") auto

declare string_of_nat.simps [simp del]

definition quoted :: "string \<Rightarrow> string" where
  "quoted s = [CHR 0x27] @ s @ [CHR 0x27]"

text \<open>
  Modelled from the spec: a Parameter (\<^verbatim>\<open>lib/types/parameter.js\<close> is not among the sources), with
  its name, its location (the \<^verbatim>\<open>in\<close> property) and the JSON Pointer of its definition, which
  tells a path-level definition from an operation-level one.
\<close>

record parameter =
  param_name :: string
  param_in :: string
  param_ptr :: string

text \<open>
  Modelled from the spec: an Operation (\<^verbatim>\<open>lib/types/operation.js\<close> is not among the sources),
  with the attributes read below: the effective \<^verbatim>\<open>consumes\<close> list, the composed parameters and
  the responses keyed by status-code string (plus \<^verbatim>\<open>default\<close>).
\<close>

record operation =
  consumes :: "string list"
  parameterObjects :: "parameter list"
  responses :: "(string \<times> response) list"

text \<open>
  Modelled from the spec: the resolution step of \<^verbatim>\<open>Operation.prototype.validateResponse\<close>. An
  exact match on the stringified status code is preferred, otherwise the \<^verbatim>\<open>default\<close> entry is
  taken; an omitted status code maps to the \<^verbatim>\<open>default\<close> response.
\<close>

definition resolveResponse :: "operation \<Rightarrow> nat option \<Rightarrow> response option" where
  "resolveResponse oper sc =
     (case sc of
        None \<Rightarrow> map_of (responses oper) ''default''
      | Some c \<Rightarrow>
          (case map_of (responses oper) (string_of_nat c) of
             Some r \<Rightarrow> Some r
           | None \<Rightarrow> map_of (responses oper) ''default''))"

text \<open>
  Modelled from the spec: the error that \<^verbatim>\<open>Operation.prototype.validateResponse\<close> reports when
  no response is resolved, with code \<^verbatim>\<open>INVALID_RESPONSE_CODE\<close>, path \<^verbatim>\<open>[]\<close> and the two messages
  that \<^verbatim>\<open>test-operation.js\<close> expects: one for an omitted status code, one for a status code
  that was given.
\<close>

definition invalidResponseCode :: "nat option \<Rightarrow> verror" where
  "invalidResponseCode sc =
     \<lparr>e_code = ''INVALID_RESPONSE_CODE'', e_errors = None,
      e_message = ''This operation does not have a defined '' @
        (case sc of None \<Rightarrow> [] | Some c \<Rightarrow> quoted (string_of_nat c) @ '' or '') @
        quoted ''default'' @ '' response code'',
      e_name = None, e_path = Some []\<rparr>"

text \<open>
  Modelled from the spec: \<^verbatim>\<open>Operation.prototype.validateResponse(statusCode, headers, body,
  encoding)\<close> of \<^verbatim>\<open>lib/types/operation.js\<close>. When no response is resolved, the result holds that
  single error; otherwise the call is delegated to the resolved \<^verbatim>\<open>Response\<close>.
\<close>

definition operation_validateResponse ::
  "env \<Rightarrow> operation \<Rightarrow> nat option \<Rightarrow> js_object option \<Rightarrow> jsval \<Rightarrow> jsval \<Rightarrow> thrown + results" where
  "operation_validateResponse E oper sc hdrs body enc =
     (case resolveResponse oper sc of
        None \<Rightarrow> Inr \<lparr>errors = [invalidResponseCode sc], warnings = []\<rparr>
      | Some r \<Rightarrow> validateResponse E r hdrs body enc)"

text \<open>
  Modelled from the spec: the headers of a request, as the Content-Type step of
  \<^verbatim>\<open>Operation.prototype.validateRequest\<close> reads them: a map from header name to header value.
\<close>

type_synonym header_map = "string \<rightharpoonup> string"

text \<open>
  Modelled from the spec: whether the operation declares or inherits a \<^verbatim>\<open>body\<close> or \<^verbatim>\<open>formData\<close>
  parameter, the condition under which \<^verbatim>\<open>Operation.prototype.validateRequest\<close> looks at the
  Content-Type.
\<close>

definition hasBodyParameter :: "operation \<Rightarrow> bool" where
  "hasBodyParameter oper =
     list_ex (\<lambda>p. param_in p = ''body'' \<or> param_in p = ''formData'') (parameterObjects oper)"

text \<open>
  Modelled from the spec: the Content-Type step of \<^verbatim>\<open>Operation.prototype.validateRequest(req)\<close>
  of \<^verbatim>\<open>lib/types/operation.js\<close>. The step is skipped when the effective \<^verbatim>\<open>consumes\<close> list is
  empty or the operation has no \<^verbatim>\<open>body\<close> or \<^verbatim>\<open>formData\<close> parameter; otherwise the request's
  Content-Type is negotiated against \<^verbatim>\<open>consumes\<close>. The validation of the parameters, which
  follows it, is not modelled.
\<close>

definition validateRequestContentType :: "operation \<Rightarrow> header_map \<Rightarrow> results" where
  "validateRequestContentType oper h =
     (if consumes oper \<noteq> [] \<and> hasBodyParameter oper then
        validateContentType (h ''content-type'') (consumes oper) \<lparr>errors = [], warnings = []\<rparr>
      else \<lparr>errors = [], warnings = []\<rparr>)"

text \<open>
  Modelled from the spec: the effective \<^verbatim>\<open>consumes\<close> of an operation, computed when the API
  model is built. The operation-level list is taken when it is present and non-empty; an
  omitted or empty operation-level list falls back to the document-level list, which is empty
  when the document declares none.
\<close>

definition effectiveConsumes :: "string list option \<Rightarrow> string list option \<Rightarrow> string list" where
  "effectiveConsumes documentLevel operationLevel =
     (case operationLevel of
        Some (c # cs) \<Rightarrow> c # cs
      | _ \<Rightarrow> (case documentLevel of None \<Rightarrow> [] | Some ds \<Rightarrow> ds))"

text \<open>Modelled from the spec: the composite key \<^verbatim>\<open>(name, in)\<close> of a parameter.\<close>

definition param_key :: "parameter \<Rightarrow> string \<times> string" where
  "param_key p = (param_name p, param_in p)"

text \<open>
  Modelled from the spec: adding one parameter to the list built so far. A parameter whose
  composite key is already in the list replaces the earlier definition, and is appended
  otherwise.
\<close>

fun upsert :: "parameter \<Rightarrow> parameter list \<Rightarrow> parameter list" where
  "upsert p [] = [p]"
| "upsert p (q # qs) = (if param_key q = param_key p then p # qs else q # upsert p qs)"

text \<open>
  Modelled from the spec: the composition of an operation's parameters, done where operations
  are constructed (not among the sources). The list is built from the path-level parameters
  followed by the operation-level ones, so that an operation-level parameter with the name and
  location of a path-level one replaces it rather than duplicates it.
\<close>

definition composeParameters :: "parameter list \<Rightarrow> parameter list \<Rightarrow> parameter list" where
  "composeParameters pathLevel operationLevel = fold upsert (pathLevel @ operationLevel) []"

section \<open>Derived notions used in the statements\<close>

text \<open>The errors that one declared header adds to the results.\<close>

definition headerErrors :: "env \<Rightarrow> js_object option \<Rightarrow> string \<times> schema \<Rightarrow> verror list" where
  "headerErrors E hdrs entry = errors (validateHeader E hdrs entry \<lparr>errors = [], warnings = []\<rparr>)"

text \<open>
  The errors that the Content-Type check and the body check add to the results, each run on
  empty results.
\<close>

definition contentTypeErrors :: "env \<Rightarrow> response \<Rightarrow> js_object \<Rightarrow> verror list" where
  "contentTypeErrors E this h =
     (if hasBody this then
        errors (validateContentType (mediaTypeOf E (header h ''content-type'')) (produces this)
                  \<lparr>errors = [], warnings = []\<rparr>)
      else [])"

definition bodyErrors :: "env \<Rightarrow> response \<Rightarrow> jsval \<Rightarrow> jsval \<Rightarrow> verror list" where
  "bodyErrors E this body enc =
     (case definition_schema this of
        None \<Rightarrow> []
      | Some sch \<Rightarrow>
          if hasBody this then errors (validateBody E sch body enc \<lparr>errors = [], warnings = []\<rparr>)
          else [])"

text \<open>
  The error entry that wraps an exception caught while a header value is converted, and the
  one that wraps an exception caught while the body is converted.
\<close>

definition wrappedHeaderError :: "string \<Rightarrow> thrown \<Rightarrow> verror" where
  "wrappedHeaderError name err =
     \<lparr>e_code = ''INVALID_RESPONSE_HEADER'',
      e_errors =
        (case err_errors err of
           Some es \<Rightarrow> Some es
         | None \<Rightarrow>
             Some [\<lparr>ne_code = err_code err, ne_message = err_message err, ne_path = err_path err\<rparr>]),
      e_message = ''Invalid header ('' @ name @ ''): '' @ str (err_message err),
      e_name = Some name,
      e_path = err_path err\<rparr>"

definition wrappedBodyError :: "thrown \<Rightarrow> verror" where
  "wrappedBodyError err =
     \<lparr>e_code = ''INVALID_RESPONSE_BODY'',
      e_errors =
        Some [\<lparr>ne_code = err_code err, ne_message = err_message err, ne_path = err_path err\<rparr>],
      e_message = ''Invalid body: '' @ str (err_message err),
      e_name = None,
      e_path = Some []\<rparr>"

text \<open>The error entry that reports the schema validation errors \<open>es\<close> of a header value.\<close>

definition invalidHeaderError :: "string \<Rightarrow> nested_error list \<Rightarrow> verror" where
  "invalidHeaderError name es =
     \<lparr>e_code = ''INVALID_RESPONSE_HEADER'',
      e_errors = Some es,
      e_message = ''Invalid header ('' @ name @ ''): '' @
        (if length es > 1 then ''Value failed JSON Schema validation''
         else str (ne_message (es ! 0))),
      e_name = Some name,
      e_path = Some []\<rparr>"

text \<open>
  The operation declares \<^verbatim>\<open>responses[code]\<close> (for a status code that is given) or
  \<^verbatim>\<open>responses.default\<close>, in terms of the modelled Operation.
\<close>

definition declaresResponse :: "operation \<Rightarrow> nat option \<Rightarrow> bool" where
  "declaresResponse oper sc =
     ((case sc of None \<Rightarrow> False | Some c \<Rightarrow> map_of (responses oper) (string_of_nat c) \<noteq> None)
      \<or> map_of (responses oper) ''default'' \<noteq> None)"

text \<open>
  The header value as the specification words it: the lowercased name is looked up among the
  supplied headers (the own properties of the headers object) first, then the exact declared
  name, then the schema-level default.
\<close>

definition headerLookup_spec :: "js_object \<Rightarrow> string \<Rightarrow> schema \<Rightarrow> jsval" where
  "headerLookup_spec h name sch =
     (case own h (toLowerCase name) of
        Some v \<Rightarrow> v
      | None \<Rightarrow> (case own h name of Some v \<Rightarrow> v | None \<Rightarrow> getProp sch ''default''))"

section \<open>A sample plugin and Petstore-shaped fixtures\<close>

text \<open>
  A small value convertor and schema validator, used to evaluate the model on concrete inputs:
  the convertor parses a string as a base-10 integer when the schema's type is \<^verbatim>\<open>integer\<close>,
  throws \<^verbatim>\<open>INVALID_TYPE\<close> when the string is not a number, and passes every other value
  through; the validator checks the schema's \<^verbatim>\<open>type\<close> only. A Content-Type value that is no
  string is negotiated like an absent one.
\<close>

definition decimal :: "string \<Rightarrow> nat" where
  "decimal s = fold (\<lambda>c n. 10 * n + length (takeWhile (\<lambda>d. d \<noteq> c) ''0123456789'')) s 0"

definition integerTypeError :: thrown where
  "integerTypeError =
     \<lparr>err_errors = None, err_code = Some ''INVALID_TYPE'',
      err_message = Some ''Expected type integer but found type string'',
      err_path = Some []\<rparr>"

definition sample_convertValue :: "schema \<Rightarrow> conv_options \<Rightarrow> jsval \<Rightarrow> thrown + jsval" where
  "sample_convertValue sch opts v =
     (case v of
        JStr s \<Rightarrow>
          if getProp sch ''type'' = JStr ''integer'' then
            (if s \<noteq> [] \<and> list_all (\<lambda>c. c \<in> set ''0123456789'') s then Inr (JNum (real (decimal s)))
             else Inl integerTypeError)
          else Inr v
      | _ \<Rightarrow> Inr v)"

fun typeName :: "jsval \<Rightarrow> string" where
  "typeName JUndefined = ''undefined''"
| "typeName JNull = ''null''"
| "typeName (JBool b) = ''boolean''"
| "typeName (JNum x) = ''number''"
| "typeName JNaN = ''number''"
| "typeName (JStr s) = ''string''"
| "typeName (JDate t) = ''object''"
| "typeName (JArr xs) = ''array''"
| "typeName (JObj kvs) = ''object''"
| "typeName (JFunction f) = ''function''"

definition sample_validateAgainstSchema :: "schema \<Rightarrow> jsval \<Rightarrow> nested_error list" where
  "sample_validateAgainstSchema sch v =
     (case getProp sch ''type'' of
        JStr t \<Rightarrow>
          if t = typeName v \<or> (t = ''integer'' \<and> typeName v = ''number'') then []
          else [\<lparr>ne_code = Some ''INVALID_TYPE'',
                 ne_message = Some (''Expected type '' @ t @ '' but found type '' @ typeName v),
                 ne_path = Some []\<rparr>]
      | _ \<Rightarrow> [])"

definition sample_env :: env where
  "sample_env =
     \<lparr>convertValue = sample_convertValue,
      validateAgainstSchema = sample_validateAgainstSchema,
      typeErrorMessage = (\<lambda>k. ''Cannot read property '' @ quoted k @ '' of undefined''),
      contentTypeOfValue = (\<lambda>v. None)\<rparr>"

text \<open>The \<^verbatim>\<open>200\<close> response of \<^verbatim>\<open>GET /user/login\<close>: a string body and two declared headers.\<close>

definition loginResponse :: response where
  "loginResponse =
     \<lparr>definition_schema = Some [(''type'', JStr ''string'')],
      headers =
        [(''X-Rate-Limit'', [(''type'', JStr ''integer''), (''format'', JStr ''int32'')]),
         (''X-Expires-After'', [(''type'', JStr ''string''), (''format'', JStr ''date-time'')])],
      statusCode = ''200'',
      produces = [''application/xml'', ''application/json'']\<rparr>"

text \<open>A \<^verbatim>\<open>204\<close> response that nevertheless declares a schema.\<close>

definition noContentResponse :: response where
  "noContentResponse =
     \<lparr>definition_schema = Some [(''type'', JStr ''string'')],
      headers = [],
      statusCode = ''204'',
      produces = [''application/json'']\<rparr>"

text \<open>A \<^verbatim>\<open>200\<close> response with an integer body and one integer header.\<close>

definition countResponse :: response where
  "countResponse =
     \<lparr>definition_schema = Some [(''type'', JStr ''integer'')],
      headers = [(''X-Rate-Limit'', [(''type'', JStr ''integer'')])],
      statusCode = ''200'',
      produces = [''application/json'']\<rparr>"


text \<open>Responses without schema and headers, as \<^verbatim>\<open>405\<close> and \<^verbatim>\<open>default\<close> of the Petstore.\<close>

definition invalidInputResponse :: response where
  "invalidInputResponse =
     \<lparr>definition_schema = None, headers = [], statusCode = ''405'',
      produces = [''application/xml'', ''application/json'']\<rparr>"

definition defaultResponse :: response where
  "defaultResponse =
     \<lparr>definition_schema = None, headers = [], statusCode = ''default'',
      produces = [''application/xml'', ''application/json'']\<rparr>"

text \<open>\<^verbatim>\<open>POST /pet\<close>, \<^verbatim>\<open>POST /user\<close> and \<^verbatim>\<open>GET /user/login\<close>.\<close>

definition postPet :: operation where
  "postPet =
     \<lparr>consumes = [''application/json'', ''application/xml''],
      parameterObjects =
        [\<lparr>param_name = ''body'', param_in = ''body'',
          param_ptr = ''#/paths/~1pet/post/parameters/0''\<rparr>],
      responses = [(''405'', invalidInputResponse)]\<rparr>"

definition postUser :: operation where
  "postUser =
     \<lparr>consumes = [],
      parameterObjects =
        [\<lparr>param_name = ''body'', param_in = ''body'',
          param_ptr = ''#/paths/~1user/post/parameters/0''\<rparr>],
      responses = [(''default'', defaultResponse)]\<rparr>"

definition getUserLogin :: operation where
  "getUserLogin =
     \<lparr>consumes = [],
      parameterObjects =
        [\<lparr>param_name = ''username'', param_in = ''query'',
          param_ptr = ''#/paths/~1user~1login/get/parameters/0''\<rparr>,
         \<lparr>param_name = ''password'', param_in = ''query'',
          param_ptr = ''#/paths/~1user~1login/get/parameters/1''\<rparr>],
      responses = [(''200'', loginResponse)]\<rparr>"

text \<open>The parameters of \<^verbatim>\<open>/pet/{petId}\<close> (path level) and of its \<^verbatim>\<open>post\<close> operation.\<close>

definition petIdPathParameters :: "parameter list" where
  "petIdPathParameters =
     [\<lparr>param_name = ''petId'', param_in = ''path'',
       param_ptr = ''#/paths/~1pet~1{petId}/parameters/0''\<rparr>]"

definition petIdPostParameters :: "parameter list" where
  "petIdPostParameters =
     [\<lparr>param_name = ''name'', param_in = ''formData'',
       param_ptr = ''#/paths/~1pet~1{petId}/post/parameters/0''\<rparr>,
      \<lparr>param_name = ''status'', param_in = ''formData'',
       param_ptr = ''#/paths/~1pet~1{petId}/post/parameters/1''\<rparr>]"

text \<open>An operation-level redefinition of the path parameter \<^verbatim>\<open>petId\<close>.\<close>

definition petIdRedefined :: parameter where
  "petIdRedefined =
     \<lparr>param_name = ''petId'', param_in = ''path'',
      param_ptr = ''#/paths/~1pet~1{petId}/post/parameters/2''\<rparr>"

section \<open>The header loop and the shape of the results\<close>

lemma headerErrors_cases:
  "headerErrors E hdrs (name, sch) =
     (case convertHeader E hdrs name sch of
        Inl err \<Rightarrow> [wrappedHeaderError name err]
      | Inr v \<Rightarrow>
          if v = JUndefined \<or> isDate v \<or> validateAgainstSchema E sch v = [] then []
          else [invalidHeaderError name (validateAgainstSchema E sch v)])"
  by (simp add: headerErrors_def validateHeader_def Let_def push_error_def
      wrappedHeaderError_def invalidHeaderError_def split: sum.splits)

lemma validateHeader_eq:
  "validateHeader E hdrs entry r = r\<lparr>errors := errors r @ headerErrors E hdrs entry\<rparr>"
  by (simp add: headerErrors_def validateHeader_def Let_def push_error_def split: sum.splits)

lemma fold_validateHeader:
  "fold (validateHeader E hdrs) hs r =
     r\<lparr>errors := errors r @ concat (map (headerErrors E hdrs) hs)\<rparr>"
proof (induction hs arbitrary: r)
  case Nil
  show ?case by simp
next
  case (Cons entry hs)
  have "fold (validateHeader E hdrs) (entry # hs) r =
        fold (validateHeader E hdrs) hs (validateHeader E hdrs entry r)"
    by simp
  also have "\<dots> = (validateHeader E hdrs entry r)
      \<lparr>errors := errors (validateHeader E hdrs entry r) @ concat (map (headerErrors E hdrs) hs)\<rparr>"
    by (rule Cons.IH)
  also have "\<dots> = r\<lparr>errors := errors r @ concat (map (headerErrors E hdrs) (entry # hs))\<rparr>"
    by (simp add: validateHeader_eq [of E hdrs entry r])
  finally show ?case .
qed

lemma headerErrors_code_name:
  assumes "e \<in> set (headerErrors E hdrs (name, sch))"
  shows "e_code e = ''INVALID_RESPONSE_HEADER'' \<and> e_name e = Some name"
  using assms
  by (auto simp: headerErrors_cases wrappedHeaderError_def invalidHeaderError_def
      split: sum.splits if_splits)


lemma warnings_validateContentType:
  "warnings (validateContentType ct supported r) = warnings r"
  by (simp add: validateContentType_def Let_def push_error_def)

lemma validateBody_eq:
  "validateBody E sch body enc r =
     r\<lparr>errors := errors r @ errors (validateBody E sch body enc \<lparr>errors = [], warnings = []\<rparr>)\<rparr>"
  by (simp add: validateBody_def Let_def push_error_def)

lemma validateResponse_Some:
  "validateResponse E this (Some h) body enc =
     Inr \<lparr>errors = contentTypeErrors E this h @
                   concat (map (headerErrors E (Some h)) (headers this)) @
                   bodyErrors E this body enc,
          warnings = []\<rparr>"
proof (cases "hasBody this")
  case True
  then obtain sch where sch: "definition_schema this = Some sch"
    by (auto simp: hasBody_def)
  show ?thesis
    using True sch
    by (simp add: validateResponse_def contentTypeErrors_def bodyErrors_def fold_validateHeader
        Let_def validateBody_eq [of E sch body enc "_\<lparr>errors := _\<rparr>"]
        warnings_validateContentType)
next
  case False
  then show ?thesis
    by (simp add: validateResponse_def contentTypeErrors_def bodyErrors_def fold_validateHeader
        Let_def split: option.splits)
qed

lemma validateResponse_no_body:
  assumes "\<not> hasBody this"
  shows "validateResponse E this hdrs body enc =
     Inr \<lparr>errors = concat (map (headerErrors E hdrs) (headers this)), warnings = []\<rparr>"
  using assms
  by (simp add: validateResponse_def fold_validateHeader Let_def split: option.splits)

lemma validateResponse_None:
  "validateResponse E this None body enc =
     (if hasBody this then Inl (typeError E ''content-type'')
      else Inr \<lparr>errors = concat (map (headerErrors E None) (headers this)), warnings = []\<rparr>)"
  by (simp add: validateResponse_def fold_validateHeader Let_def split: option.splits)

section \<open>Evaluation on concrete inputs\<close>

lemmas response_defs =
  validateResponse_def validateHeader_def validateBody_def validateContentType_def
  convertHeader_def headerLookup_def header_def hasBody_def push_error_def typeError_def
  js_or_def getProp_def toLowerCase_def lower_char_def str_def stripParameters_def Let_def
  mediaTypeOf_def plainObject_def objectPrototype_def

lemmas sample_defs =
  sample_env_def sample_convertValue_def sample_validateAgainstSchema_def decimal_def quoted_def

section \<open>Void, 204 and 304 responses\<close>

text \<open>
  Claim C1. When the response declares no schema, or its status code is \<^verbatim>\<open>'204'\<close> or
  \<^verbatim>\<open>'304'\<close>, \<^verbatim>\<open>validateResponse\<close> performs neither the Content-Type check nor the body check:
  whatever the headers (given or undefined), the body and the encoding are, it returns the
  results of the header loop alone, started on empty results, and no error of the result has
  the code \<^verbatim>\<open>INVALID_CONTENT_TYPE\<close> or \<^verbatim>\<open>INVALID_RESPONSE_BODY\<close>. A \<^verbatim>\<open>204\<close> response is the
  instance \<open>statusCode this = ''204''\<close>.
\<close>

theorem validateResponse_void_204_304:
  assumes "definition_schema this = None \<or> statusCode this = ''204'' \<or> statusCode this = ''304''"
  shows "validateResponse E this hdrs body enc =
           Inr (fold (validateHeader E hdrs) (headers this) \<lparr>errors = [], warnings = []\<rparr>)
         \<and> (\<forall>r. validateResponse E this hdrs body enc = Inr r \<longrightarrow>
               (\<forall>e \<in> set (errors r).
                  e_code e \<noteq> ''INVALID_CONTENT_TYPE'' \<and> e_code e \<noteq> ''INVALID_RESPONSE_BODY''))"
proof -
  from assms have nb: "\<not> hasBody this"
    by (auto simp: hasBody_def)
  have res: "validateResponse E this hdrs body enc =
      Inr \<lparr>errors = concat (map (headerErrors E hdrs) (headers this)), warnings = []\<rparr>"
    by (rule validateResponse_no_body [OF nb])
  have codes: "e_code e = ''INVALID_RESPONSE_HEADER''"
    if "e \<in> set (concat (map (headerErrors E hdrs) (headers this)))" for e
    using that headerErrors_code_name [of e E hdrs] by auto
  have "validateResponse E this hdrs body enc =
      Inr (fold (validateHeader E hdrs) (headers this) \<lparr>errors = [], warnings = []\<rparr>)"
    by (simp add: res fold_validateHeader)
  moreover have "\<forall>r. validateResponse E this hdrs body enc = Inr r \<longrightarrow>
      (\<forall>e \<in> set (errors r).
         e_code e \<noteq> ''INVALID_CONTENT_TYPE'' \<and> e_code e \<noteq> ''INVALID_RESPONSE_BODY'')"
    using codes by (auto simp: res)
  ultimately show ?thesis by blast
qed

text \<open>
  A \<^verbatim>\<open>204\<close> response with a string schema, an undeclared Content-Type and a numeric body
  yields no error; the same response under status \<^verbatim>\<open>200\<close> does.
\<close>

theorem validateResponse_void_204_304_witness:
  "statusCode noContentResponse = ''204''
   \<and> validateResponse sample_env noContentResponse
        (Some (plainObject [(''content-type'', JStr ''text/plain'')])) (JNum 5) JUndefined =
      Inr \<lparr>errors = [], warnings = []\<rparr>
   \<and> validateResponse sample_env (noContentResponse\<lparr>statusCode := ''200''\<rparr>)
        (Some (plainObject [(''content-type'', JStr ''text/plain'')])) (JNum 5) JUndefined \<noteq>
      Inr \<lparr>errors = [], warnings = []\<rparr>"
proof -
  have h: "definition_schema noContentResponse = None \<or> statusCode noContentResponse = ''204''
      \<or> statusCode noContentResponse = ''304''"
    by (simp add: noContentResponse_def)
  have other: "validateResponse sample_env (noContentResponse\<lparr>statusCode := ''200''\<rparr>)
        (Some (plainObject [(''content-type'', JStr ''text/plain'')])) (JNum 5) JUndefined \<noteq>
      Inr \<lparr>errors = [], warnings = []\<rparr>"
    by (simp add: response_defs sample_defs noContentResponse_def)
  from validateResponse_void_204_304 [OF h, of sample_env
      "Some (plainObject [(''content-type'', JStr ''text/plain'')])" "JNum 5" JUndefined] other
  show ?thesis
    by (simp add: noContentResponse_def)
qed

section \<open>Warnings\<close>

text \<open>
  Claim C10. The result of \<^verbatim>\<open>validateResponse\<close> has an empty \<^verbatim>\<open>warnings\<close> array: with a headers
  object the function returns results whose warnings are empty, and whenever it returns at all
  (also with undefined headers) the warnings are empty. Only \<^verbatim>\<open>errors\<close> is ever extended.
\<close>

theorem validateResponse_warnings_empty:
  "(\<exists>r. validateResponse E this (Some h) body enc = Inr r \<and> warnings r = [])
   \<and> (\<forall>r. validateResponse E this hdrs body enc = Inr r \<longrightarrow> warnings r = [])"
proof
  show "\<exists>r. validateResponse E this (Some h) body enc = Inr r \<and> warnings r = []"
    by (simp add: validateResponse_Some)
  show "\<forall>r. validateResponse E this hdrs body enc = Inr r \<longrightarrow> warnings r = []"
  proof (cases hdrs)
    case None
    then show ?thesis by (auto simp: validateResponse_None split: if_splits)
  next
    case (Some h')
    then show ?thesis by (auto simp: validateResponse_Some)
  qed
qed

text \<open>A response whose header and body both fail conversion: two errors, no warning.\<close>

theorem validateResponse_warnings_empty_witness:
  "validateResponse sample_env countResponse
      (Some (plainObject [(''content-type'', JStr ''application/json''), (''x-rate-limit'', JStr ''lots'')]))
      (JStr ''many'') JUndefined =
     Inr \<lparr>errors =
           [wrappedHeaderError ''X-Rate-Limit'' integerTypeError,
            wrappedBodyError integerTypeError],
          warnings = []\<rparr>"
proof -
  let ?call = "validateResponse sample_env countResponse
      (Some (plainObject [(''content-type'', JStr ''application/json''), (''x-rate-limit'', JStr ''lots'')]))
      (JStr ''many'') JUndefined"
  have errs: "\<exists>w. ?call =
     Inr \<lparr>errors =
           [wrappedHeaderError ''X-Rate-Limit'' integerTypeError,
            wrappedBodyError integerTypeError],
          warnings = w\<rparr>"
    by (simp add: response_defs sample_defs countResponse_def wrappedHeaderError_def
        wrappedBodyError_def integerTypeError_def)
  from validateResponse_warnings_empty [of sample_env countResponse _ "JStr ''many''" JUndefined
      "Some (plainObject [(''content-type'', JStr ''application/json''), (''x-rate-limit'', JStr ''lots'')])"]
  have "\<forall>r. ?call = Inr r \<longrightarrow> warnings r = []"
    by blast
  with errs show ?thesis
    by auto
qed

section \<open>Exceptions of the value convertor\<close>

lemma bodyErrors_thrown:
  assumes "hasBody this" and "definition_schema this = Some sch"
    and "convertValue E sch \<lparr>collectionFormat = JUndefined, encoding = enc\<rparr> body = Inl err"
  shows "bodyErrors E this body enc = [wrappedBodyError err]"
  using assms
  by (simp add: bodyErrors_def validateBody_def wrappedBodyError_def push_error_def)

lemma convertHeader_Some:
  "convertHeader E (Some h) name sch =
     convertValue E sch
       \<lparr>collectionFormat = getProp sch ''collectionFormat'', encoding = JUndefined\<rparr>
       (headerLookup h name sch)"
  by (simp add: convertHeader_def)

lemma wrapped_header_error_reported:
  assumes "validateResponse E this hdrs body enc = Inr r"
    and "(name, sch) \<in> set (headers this)"
    and "convertHeader E hdrs name sch = Inl err"
  shows "wrappedHeaderError name err \<in> set (errors r)"
proof -
  from assms(3) have "headerErrors E hdrs (name, sch) = [wrappedHeaderError name err]"
    by (simp add: headerErrors_cases)
  with assms(2) have member: "wrappedHeaderError name err
      \<in> set (concat (map (headerErrors E hdrs) (headers this)))"
    by force
  show ?thesis
  proof (cases hdrs)
    case None
    with assms(1) member show ?thesis
      by (auto simp: validateResponse_None split: if_splits)
  next
    case (Some h)
    with assms(1) member show ?thesis
      by (auto simp: validateResponse_Some)
  qed
qed

text \<open>
  Claim C6, as stated, fails when the caller passes no headers, as
  \<^verbatim>\<open>operation.validateResponse(201)\<close> does in \<^verbatim>\<open>test-operation.js\<close>. The login response has a
  schema and the status \<^verbatim>\<open>200\<close>, so \<^verbatim>\<open>validateResponse(undefined, 'token')\<close> evaluates
  \<^verbatim>\<open>headers['content-type']\<close> outside any \<^verbatim>\<open>try\<close>, and the \<^verbatim>\<open>TypeError\<close> leaves the function: no
  results object is returned.
\<close>

theorem validateResponse_undefined_headers_counterexample:
  "validateResponse sample_env loginResponse None (JStr ''token'') JUndefined =
     Inl (typeError sample_env ''content-type'')"
  by (simp add: validateResponse_None hasBody_def loginResponse_def)

text \<open>
  Claim C6, amended. For every headers object, body and encoding, \<^verbatim>\<open>validateResponse\<close> returns
  a results object (the value \<open>Inr r\<close>, never an exception \<open>Inl err\<close>). An exception thrown
  by the convertor for the value of a declared header is caught and appears in the errors as
  the \<^verbatim>\<open>INVALID_RESPONSE_HEADER\<close> entry that wraps it; an exception thrown by the convertor for
  the body, when the body is checked, is caught and appears as the last error, the
  \<^verbatim>\<open>INVALID_RESPONSE_BODY\<close> entry that wraps it. With undefined headers the function still
  returns a results object when the response has no schema or the status \<^verbatim>\<open>204\<close> or \<^verbatim>\<open>304\<close>;
  and whatever the headers are, in every result that is returned each exception caught in the
  header loop is wrapped as an \<^verbatim>\<open>INVALID_RESPONSE_HEADER\<close> error.
\<close>

theorem validateResponse_never_raises:
  "(\<exists>r. validateResponse E this (Some h) body enc = Inr r
     \<and> (\<forall>name sch err.
           (name, sch) \<in> set (headers this)
           \<and> convertValue E sch
               \<lparr>collectionFormat = getProp sch ''collectionFormat'', encoding = JUndefined\<rparr>
               (headerLookup h name sch) = Inl err
           \<longrightarrow> wrappedHeaderError name err \<in> set (errors r))
     \<and> (\<forall>sch err.
           definition_schema this = Some sch \<and> statusCode this \<noteq> ''204''
           \<and> statusCode this \<noteq> ''304''
           \<and> convertValue E sch \<lparr>collectionFormat = JUndefined, encoding = enc\<rparr> body = Inl err
           \<longrightarrow> errors r \<noteq> [] \<and> last (errors r) = wrappedBodyError err))
   \<and> (definition_schema this = None \<or> statusCode this = ''204'' \<or> statusCode this = ''304''
        \<longrightarrow> (\<exists>r. validateResponse E this hdrs body enc = Inr r))
   \<and> (\<forall>r name sch err.
         validateResponse E this hdrs body enc = Inr r
         \<and> (name, sch) \<in> set (headers this)
         \<and> convertHeader E hdrs name sch = Inl err
         \<longrightarrow> wrappedHeaderError name err \<in> set (errors r))"
proof -
  let ?r = "\<lparr>errors = contentTypeErrors E this h @
                  concat (map (headerErrors E (Some h)) (headers this)) @
                  bodyErrors E this body enc,
              warnings = []\<rparr>"
  have ret: "validateResponse E this (Some h) body enc = Inr ?r"
    by (rule validateResponse_Some)
  have hdr: "wrappedHeaderError name err \<in> set (errors ?r)"
    if "(name, sch) \<in> set (headers this)"
      and "convertValue E sch
             \<lparr>collectionFormat = getProp sch ''collectionFormat'', encoding = JUndefined\<rparr>
             (headerLookup h name sch) = Inl err"
    for name sch err
    using wrapped_header_error_reported [OF ret that(1)] that(2)
    by (simp add: convertHeader_Some)
  have bdy: "errors ?r \<noteq> [] \<and> last (errors ?r) = wrappedBodyError err"
    if "definition_schema this = Some sch" and "statusCode this \<noteq> ''204''"
      and "statusCode this \<noteq> ''304''"
      and "convertValue E sch \<lparr>collectionFormat = JUndefined, encoding = enc\<rparr> body = Inl err"
    for sch err
  proof -
    from that have "hasBody this"
      by (simp add: hasBody_def)
    with that have "bodyErrors E this body enc = [wrappedBodyError err]"
      by (simp add: bodyErrors_thrown)
    then show ?thesis by simp
  qed
  have object: "\<exists>r. validateResponse E this (Some h) body enc = Inr r
     \<and> (\<forall>name sch err.
           (name, sch) \<in> set (headers this)
           \<and> convertValue E sch
               \<lparr>collectionFormat = getProp sch ''collectionFormat'', encoding = JUndefined\<rparr>
               (headerLookup h name sch) = Inl err
           \<longrightarrow> wrappedHeaderError name err \<in> set (errors r))
     \<and> (\<forall>sch err.
           definition_schema this = Some sch \<and> statusCode this \<noteq> ''204''
           \<and> statusCode this \<noteq> ''304''
           \<and> convertValue E sch \<lparr>collectionFormat = JUndefined, encoding = enc\<rparr> body = Inl err
           \<longrightarrow> errors r \<noteq> [] \<and> last (errors r) = wrappedBodyError err)"
    using ret hdr bdy by blast
  have void: "\<exists>r. validateResponse E this hdrs body enc = Inr r"
    if "definition_schema this = None \<or> statusCode this = ''204'' \<or> statusCode this = ''304''"
  proof -
    from that have "\<not> hasBody this"
      by (auto simp: hasBody_def)
    then show ?thesis
      by (simp add: validateResponse_no_body)
  qed
  from object void wrapped_header_error_reported [of E this hdrs body enc]
  show ?thesis
    by blast
qed

text \<open>
  The integer response with a header value and a body that are not numbers: both conversions
  throw, and both exceptions end up wrapped in the errors of a returned result. Under the
  status \<^verbatim>\<open>304\<close> and with undefined headers a result is returned as well.
\<close>

theorem validateResponse_never_raises_witness:
  "(''X-Rate-Limit'', [(''type'', JStr ''integer'')]) \<in> set (headers countResponse)
   \<and> convertValue sample_env [(''type'', JStr ''integer'')]
        \<lparr>collectionFormat = getProp [(''type'', JStr ''integer'')] ''collectionFormat'',
         encoding = JUndefined\<rparr>
        (headerLookup
           (plainObject
              [(''content-type'', JStr ''application/json''), (''x-rate-limit'', JStr ''lots'')])
           ''X-Rate-Limit'' [(''type'', JStr ''integer'')]) = Inl integerTypeError
   \<and> convertValue sample_env [(''type'', JStr ''integer'')]
        \<lparr>collectionFormat = JUndefined, encoding = JUndefined\<rparr> (JStr ''many'') =
       Inl integerTypeError
   \<and> (\<exists>r. validateResponse sample_env countResponse
              (Some (plainObject
                 [(''content-type'', JStr ''application/json''),
                  (''x-rate-limit'', JStr ''lots'')]))
              (JStr ''many'') JUndefined = Inr r
          \<and> wrappedHeaderError ''X-Rate-Limit'' integerTypeError \<in> set (errors r)
          \<and> errors r \<noteq> []
          \<and> last (errors r) = wrappedBodyError integerTypeError)
   \<and> statusCode (countResponse\<lparr>statusCode := ''304''\<rparr>) = ''304''
   \<and> (\<exists>r. validateResponse sample_env (countResponse\<lparr>statusCode := ''304''\<rparr>) None
              (JStr ''many'') JUndefined = Inr r)"
proof -
  let ?h = "plainObject
      [(''content-type'', JStr ''application/json''), (''x-rate-limit'', JStr ''lots'')]"
  let ?sch = "[(''type'', JStr ''integer'')]"
  have decl: "(''X-Rate-Limit'', ?sch) \<in> set (headers countResponse)"
    by (simp add: countResponse_def)
  have hconv: "convertValue sample_env ?sch
        \<lparr>collectionFormat = getProp ?sch ''collectionFormat'', encoding = JUndefined\<rparr>
        (headerLookup ?h ''X-Rate-Limit'' ?sch) = Inl integerTypeError"
    by (simp add: response_defs sample_defs)
  have bconv: "convertValue sample_env ?sch
        \<lparr>collectionFormat = JUndefined, encoding = JUndefined\<rparr> (JStr ''many'') =
       Inl integerTypeError"
    by (simp add: response_defs sample_defs)
  have schema: "definition_schema countResponse = Some ?sch"
      "statusCode countResponse \<noteq> ''204''" "statusCode countResponse \<noteq> ''304''"
    by (simp_all add: countResponse_def)
  have status: "statusCode (countResponse\<lparr>statusCode := ''304''\<rparr>) = ''304''"
    by simp
  from validateResponse_never_raises [where E = sample_env and this = countResponse
      and h = ?h and body = "JStr ''many''" and enc = JUndefined and hdrs = None, THEN conjunct1]
  obtain r where r: "validateResponse sample_env countResponse (Some ?h) (JStr ''many'') JUndefined
        = Inr r"
    and hdr: "\<And>name sch err. (name, sch) \<in> set (headers countResponse) \<Longrightarrow>
        convertValue sample_env sch
          \<lparr>collectionFormat = getProp sch ''collectionFormat'', encoding = JUndefined\<rparr>
          (headerLookup ?h name sch) = Inl err \<Longrightarrow>
        wrappedHeaderError name err \<in> set (errors r)"
    and bdy: "\<And>sch err. definition_schema countResponse = Some sch \<Longrightarrow>
        statusCode countResponse \<noteq> ''204'' \<Longrightarrow> statusCode countResponse \<noteq> ''304'' \<Longrightarrow>
        convertValue sample_env sch \<lparr>collectionFormat = JUndefined, encoding = JUndefined\<rparr>
          (JStr ''many'') = Inl err \<Longrightarrow>
        errors r \<noteq> [] \<and> last (errors r) = wrappedBodyError err"
    by blast
  from validateResponse_never_raises [where E = sample_env
      and this = "countResponse\<lparr>statusCode := ''304''\<rparr>" and hdrs = None
      and body = "JStr ''many''" and enc = JUndefined] status
  have void: "\<exists>r. validateResponse sample_env (countResponse\<lparr>statusCode := ''304''\<rparr>) None
              (JStr ''many'') JUndefined = Inr r"
    by blast
  from hdr [OF decl hconv] bdy [OF schema bconv] r decl hconv bconv status void
  show ?thesis
    by blast
qed

section \<open>Declared headers\<close>

lemma headerLookup_cases:
  "headerLookup h name sch =
     (if truthy (header h (toLowerCase name)) then header h (toLowerCase name)
      else if truthy (header h name) then header h name
      else getProp sch ''default'')"
  by (simp add: headerLookup_def js_or_def)

lemma header_not_inherited:
  assumes "inherited h k = None"
  shows "header h k = (case own h k of Some v \<Rightarrow> v | None \<Rightarrow> JUndefined)"
  using assms by (simp add: header_def split: option.splits)


text \<open>
  Claim C4, as stated, fails on a header that is supplied with an empty value. With the
  headers \<^verbatim>\<open>{'x-rate-limit': ''}\<close> and a schema whose default is \<open>10\<close>, looking the lowercased
  name up finds the empty string, whereas the source's
  \<^verbatim>\<open>headers[name.toLowerCase()] || headers[name] || schema.default\<close> passes over the empty
  string, which is falsy, and hands the default \<open>10\<close> to the convertor.
\<close>

theorem headerLookup_empty_value_counterexample:
  "headerLookup (plainObject [(''x-rate-limit'', JStr '''')]) ''X-Rate-Limit''
       [(''type'', JStr ''integer''), (''default'', JNum 10)] = JNum 10
   \<and> headerLookup_spec (plainObject [(''x-rate-limit'', JStr '''')]) ''X-Rate-Limit''
       [(''type'', JStr ''integer''), (''default'', JNum 10)] = JStr ''''
   \<and> headerLookup (plainObject [(''x-rate-limit'', JStr '''')]) ''X-Rate-Limit''
       [(''type'', JStr ''integer''), (''default'', JNum 10)] \<noteq>
     headerLookup_spec (plainObject [(''x-rate-limit'', JStr '''')]) ''X-Rate-Limit''
       [(''type'', JStr ''integer''), (''default'', JNum 10)]"
  by (simp add: headerLookup_def headerLookup_spec_def header_def js_or_def getProp_def
      toLowerCase_def lower_char_def plainObject_def objectPrototype_def)

text \<open>
  Claim C4, amended. For a declared header \<open>(name, sch)\<close> and a headers object \<open>h\<close>, the value
  handed to the convertor is \<^verbatim>\<open>headers[name.toLowerCase()] || headers[name] || schema.default\<close>:
  the property read under the lowercased name if it is truthy, otherwise the property read
  under the exact declared name if that is truthy, otherwise the schema-level default. When
  the object inherits nothing under either name, these reads are its own entries, an entry
  that is falsy (such as the empty string) being passed over; and the value is the one the
  specification describes whenever, in addition, no own entry under either name is falsy. In
  particular, for an object that inherits nothing and whose entries are strings, the value is
  the entry under the lowercased name if it is a non-empty string, otherwise the entry under
  the exact declared name if that is a non-empty string, otherwise the default, and it is the
  value the specification describes whenever neither entry is the empty string. The
  header contributes exactly these errors: the entry wrapping the exception when the conversion
  throws; nothing when the converted value is undefined, a date, or valid against the header
  schema; otherwise the entry carrying the schema validation errors. Every such error has the
  code \<^verbatim>\<open>INVALID_RESPONSE_HEADER\<close> and the declared header name in its \<^verbatim>\<open>name\<close> field, and the
  errors of \<^verbatim>\<open>validateResponse\<close> are those of the Content-Type check, followed by those of the
  declared headers in declaration order, followed by those of the body check.
\<close>

theorem header_value_and_errors:
  "headerLookup h name sch =
     (if truthy (header h (toLowerCase name)) then header h (toLowerCase name)
      else if truthy (header h name) then header h name
      else getProp sch ''default'')
   \<and> (inherited h (toLowerCase name) = None \<and> inherited h name = None \<longrightarrow>
        headerLookup h name sch =
          (case own h (toLowerCase name) of
             Some v \<Rightarrow>
               if truthy v then v
               else (case own h name of
                       Some w \<Rightarrow> if truthy w then w else getProp sch ''default''
                     | None \<Rightarrow> getProp sch ''default'')
           | None \<Rightarrow>
               (case own h name of
                  Some w \<Rightarrow> if truthy w then w else getProp sch ''default''
                | None \<Rightarrow> getProp sch ''default'')))
   \<and> (inherited h (toLowerCase name) = None \<and> inherited h name = None
        \<and> (case own h (toLowerCase name) of Some v \<Rightarrow> truthy v | None \<Rightarrow> True)
        \<and> (case own h name of Some w \<Rightarrow> truthy w | None \<Rightarrow> True) \<longrightarrow>
        headerLookup h name sch = headerLookup_spec h name sch)
   \<and> headerLookup (stringHeaders m) name sch =
       (case m (toLowerCase name) of
          Some (c # cs) \<Rightarrow> JStr (c # cs)
        | _ \<Rightarrow> (case m name of Some (c # cs) \<Rightarrow> JStr (c # cs) | _ \<Rightarrow> getProp sch ''default''))
   \<and> (m (toLowerCase name) \<noteq> Some [] \<and> m name \<noteq> Some [] \<longrightarrow>
        headerLookup (stringHeaders m) name sch = headerLookup_spec (stringHeaders m) name sch)
   \<and> headerErrors E (Some h) (name, sch) =
       (case convertValue E sch
               \<lparr>collectionFormat = getProp sch ''collectionFormat'', encoding = JUndefined\<rparr>
               (headerLookup h name sch) of
          Inl err \<Rightarrow> [wrappedHeaderError name err]
        | Inr v \<Rightarrow>
            if v = JUndefined \<or> isDate v \<or> validateAgainstSchema E sch v = [] then []
            else [invalidHeaderError name (validateAgainstSchema E sch v)])
   \<and> (\<forall>e \<in> set (headerErrors E (Some h) (name, sch)).
         e_code e = ''INVALID_RESPONSE_HEADER'' \<and> e_name e = Some name)
   \<and> validateResponse E this (Some h) body enc =
       Inr \<lparr>errors = contentTypeErrors E this h @
                     concat (map (headerErrors E (Some h)) (headers this)) @
                     bodyErrors E this body enc,
            warnings = []\<rparr>"
proof -
  have owned: "headerLookup h name sch =
          (case own h (toLowerCase name) of
             Some v \<Rightarrow>
               if truthy v then v
               else (case own h name of
                       Some w \<Rightarrow> if truthy w then w else getProp sch ''default''
                     | None \<Rightarrow> getProp sch ''default'')
           | None \<Rightarrow>
               (case own h name of
                  Some w \<Rightarrow> if truthy w then w else getProp sch ''default''
                | None \<Rightarrow> getProp sch ''default''))"
    if "inherited h (toLowerCase name) = None" and "inherited h name = None"
    using that
    by (simp add: headerLookup_cases header_not_inherited split: option.splits)
  have agree: "headerLookup h name sch = headerLookup_spec h name sch"
    if "inherited h (toLowerCase name) = None" and "inherited h name = None"
      and "case own h (toLowerCase name) of Some v \<Rightarrow> truthy v | None \<Rightarrow> True"
      and "case own h name of Some w \<Rightarrow> truthy w | None \<Rightarrow> True"
    using that
    by (simp add: headerLookup_cases header_not_inherited headerLookup_spec_def
        split: option.splits)
  have strings: "headerLookup (stringHeaders m) name sch =
       (case m (toLowerCase name) of
          Some (c # cs) \<Rightarrow> JStr (c # cs)
        | _ \<Rightarrow> (case m name of Some (c # cs) \<Rightarrow> JStr (c # cs) | _ \<Rightarrow> getProp sch ''default''))"
    by (simp add: headerLookup_cases header_def stringHeaders_def
        split: option.splits list.splits)
  have strings_agree:
    "headerLookup (stringHeaders m) name sch = headerLookup_spec (stringHeaders m) name sch"
    if "m (toLowerCase name) \<noteq> Some []" and "m name \<noteq> Some []"
    using that unfolding strings
    by (simp add: headerLookup_spec_def stringHeaders_def split: option.splits list.splits)
  have errs: "headerErrors E (Some h) (name, sch) =
       (case convertValue E sch
               \<lparr>collectionFormat = getProp sch ''collectionFormat'', encoding = JUndefined\<rparr>
               (headerLookup h name sch) of
          Inl err \<Rightarrow> [wrappedHeaderError name err]
        | Inr v \<Rightarrow>
            if v = JUndefined \<or> isDate v \<or> validateAgainstSchema E sch v = [] then []
            else [invalidHeaderError name (validateAgainstSchema E sch v)])"
    by (simp only: headerErrors_cases convertHeader_Some)
  have codes: "\<forall>e \<in> set (headerErrors E (Some h) (name, sch)).
         e_code e = ''INVALID_RESPONSE_HEADER'' \<and> e_name e = Some name"
    using headerErrors_code_name [of _ E "Some h" name sch] by blast
  from headerLookup_cases [of h name sch] owned agree strings strings_agree errs codes
    validateResponse_Some [of E this h body enc]
  show ?thesis
    by blast
qed

text \<open>
  A header supplied under its exact, mixed-case name with a value that is not a number: the
  lookup agrees with the specification's, the conversion throws, and the one error of the
  \<^verbatim>\<open>304\<close> response is the wrapped exception.
\<close>

theorem header_value_and_errors_witness:
  "inherited (plainObject [(''X-Rate-Limit'', JStr ''lots'')]) (toLowerCase ''X-Rate-Limit'') = None
   \<and> inherited (plainObject [(''X-Rate-Limit'', JStr ''lots'')]) ''X-Rate-Limit'' = None
   \<and> own (plainObject [(''X-Rate-Limit'', JStr ''lots'')]) (toLowerCase ''X-Rate-Limit'') = None
   \<and> own (plainObject [(''X-Rate-Limit'', JStr ''lots'')]) ''X-Rate-Limit'' = Some (JStr ''lots'')
   \<and> truthy (JStr ''lots'')
   \<and> headerLookup_spec (plainObject [(''X-Rate-Limit'', JStr ''lots'')]) ''X-Rate-Limit''
        [(''type'', JStr ''integer'')] = JStr ''lots''
   \<and> headerLookup (plainObject [(''X-Rate-Limit'', JStr ''lots'')]) ''X-Rate-Limit''
        [(''type'', JStr ''integer'')] = JStr ''lots''
   \<and> headerErrors sample_env (Some (plainObject [(''X-Rate-Limit'', JStr ''lots'')]))
        (''X-Rate-Limit'', [(''type'', JStr ''integer'')]) =
       [wrappedHeaderError ''X-Rate-Limit'' integerTypeError]
   \<and> validateResponse sample_env (countResponse\<lparr>statusCode := ''304''\<rparr>)
        (Some (plainObject [(''X-Rate-Limit'', JStr ''lots'')])) JUndefined JUndefined =
       Inr \<lparr>errors = [wrappedHeaderError ''X-Rate-Limit'' integerTypeError], warnings = []\<rparr>"
proof -
  let ?h = "plainObject [(''X-Rate-Limit'', JStr ''lots'')]"
  let ?sch = "[(''type'', JStr ''integer'')]"
  have i1: "inherited ?h (toLowerCase ''X-Rate-Limit'') = None"
    and i2: "inherited ?h ''X-Rate-Limit'' = None"
    and o1: "own ?h (toLowerCase ''X-Rate-Limit'') = None"
    and o2: "own ?h ''X-Rate-Limit'' = Some (JStr ''lots'')"
    and t: "truthy (JStr ''lots'')"
    by (simp_all add: plainObject_def objectPrototype_def toLowerCase_def lower_char_def)
  from o1 have p1: "case own ?h (toLowerCase ''X-Rate-Limit'') of
      Some v \<Rightarrow> truthy v | None \<Rightarrow> True"
    by simp
  from o2 have p2: "case own ?h ''X-Rate-Limit'' of Some w \<Rightarrow> truthy w | None \<Rightarrow> True"
    by simp
  from o1 o2 have spec: "headerLookup_spec ?h ''X-Rate-Limit'' ?sch = JStr ''lots''"
    by (simp add: headerLookup_spec_def)
  have conv: "convertValue sample_env ?sch
       \<lparr>collectionFormat = getProp ?sch ''collectionFormat'', encoding = JUndefined\<rparr>
       (JStr ''lots'') = Inl integerTypeError"
    by (simp add: sample_defs getProp_def)
  have parts: "contentTypeErrors sample_env (countResponse\<lparr>statusCode := ''304''\<rparr>) ?h = []"
      "bodyErrors sample_env (countResponse\<lparr>statusCode := ''304''\<rparr>) JUndefined JUndefined = []"
      "headers (countResponse\<lparr>statusCode := ''304''\<rparr>) = [(''X-Rate-Limit'', ?sch)]"
    by (simp_all add: contentTypeErrors_def bodyErrors_def hasBody_def countResponse_def)
  from header_value_and_errors [where h = ?h and name = "''X-Rate-Limit''" and sch = ?sch
      and E = sample_env and this = "countResponse\<lparr>statusCode := ''304''\<rparr>"
      and body = JUndefined and enc = JUndefined and m = Map.empty]
  have look: "headerLookup ?h ''X-Rate-Limit'' ?sch = headerLookup_spec ?h ''X-Rate-Limit'' ?sch"
    and errs: "headerErrors sample_env (Some ?h) (''X-Rate-Limit'', ?sch) =
       (case convertValue sample_env ?sch
               \<lparr>collectionFormat = getProp ?sch ''collectionFormat'', encoding = JUndefined\<rparr>
               (headerLookup ?h ''X-Rate-Limit'' ?sch) of
          Inl err \<Rightarrow> [wrappedHeaderError ''X-Rate-Limit'' err]
        | Inr v \<Rightarrow>
            if v = JUndefined \<or> isDate v \<or> validateAgainstSchema sample_env ?sch v = [] then []
            else [invalidHeaderError ''X-Rate-Limit'' (validateAgainstSchema sample_env ?sch v)])"
    and res: "validateResponse sample_env (countResponse\<lparr>statusCode := ''304''\<rparr>) (Some ?h)
        JUndefined JUndefined =
       Inr \<lparr>errors = contentTypeErrors sample_env (countResponse\<lparr>statusCode := ''304''\<rparr>) ?h @
                     concat (map (headerErrors sample_env (Some ?h))
                               (headers (countResponse\<lparr>statusCode := ''304''\<rparr>))) @
                     bodyErrors sample_env (countResponse\<lparr>statusCode := ''304''\<rparr>)
                       JUndefined JUndefined,
            warnings = []\<rparr>"
    using i1 i2 p1 p2 by blast+
  have look': "headerLookup ?h ''X-Rate-Limit'' ?sch = JStr ''lots''"
    using look spec by simp
  have errs': "headerErrors sample_env (Some ?h) (''X-Rate-Limit'', ?sch) =
       [wrappedHeaderError ''X-Rate-Limit'' integerTypeError]"
    by (simp only: errs look' conv sum.case)
  have res': "validateResponse sample_env (countResponse\<lparr>statusCode := ''304''\<rparr>)
        (Some ?h) JUndefined JUndefined =
       Inr \<lparr>errors = [wrappedHeaderError ''X-Rate-Limit'' integerTypeError], warnings = []\<rparr>"
    by (simp only: res parts errs' list.map concat.simps append_Nil append_Nil2)
  from i1 i2 o1 o2 t spec look' errs' res' show ?thesis
    by blast
qed

section \<open>Headers that are declared and not supplied\<close>







section \<open>Resolution of the response in Operation.validateResponse\<close>

lemma contentTypeErrors_code:
  assumes "e \<in> set (contentTypeErrors E this h)"
  shows "e_code e = ''INVALID_CONTENT_TYPE''"
  using assms
  by (auto simp: contentTypeErrors_def validateContentType_def Let_def push_error_def
      split: if_splits)

lemma bodyErrors_code:
  assumes "e \<in> set (bodyErrors E this body enc)"
  shows "e_code e = ''INVALID_RESPONSE_BODY''"
  using assms
  by (auto simp: bodyErrors_def validateBody_def Let_def push_error_def
      split: option.splits if_splits)

lemma validateResponse_codes:
  assumes "validateResponse E this hdrs body enc = Inr r" and "e \<in> set (errors r)"
  shows "e_code e = ''INVALID_CONTENT_TYPE'' \<or> e_code e = ''INVALID_RESPONSE_HEADER''
         \<or> e_code e = ''INVALID_RESPONSE_BODY''"
proof (cases hdrs)
  case None
  with assms have "e \<in> set (concat (map (headerErrors E None) (headers this)))"
    by (auto simp: validateResponse_None split: if_splits)
  then show ?thesis
    using headerErrors_code_name [of e E None] by auto
next
  case (Some h)
  with assms have "e \<in> set (contentTypeErrors E this h)
      \<or> e \<in> set (concat (map (headerErrors E (Some h)) (headers this)))
      \<or> e \<in> set (bodyErrors E this body enc)"
    by (auto simp: validateResponse_Some)
  then show ?thesis
    using contentTypeErrors_code [of e E this h] bodyErrors_code [of e E this body enc]
      headerErrors_code_name [of e E "Some h"] by auto
qed

lemma resolveResponse_declares: "resolveResponse oper sc \<noteq> None \<longleftrightarrow> declaresResponse oper sc"
  by (auto simp: resolveResponse_def declaresResponse_def split: option.splits)



text \<open>
  Claim C3, as stated, fails from right to left: \<^verbatim>\<open>GET /user/login\<close> declares
  \<^verbatim>\<open>responses['200']\<close>, and \<^verbatim>\<open>validateResponse(200, {'content-type': 'text/plain'}, 'token')\<close>
  still returns an error, since \<^verbatim>\<open>text/plain\<close> is not among the media types the operation
  produces.
\<close>

theorem operation_validateResponse_iff_counterexample:
  "declaresResponse getUserLogin (Some 200)
   \<and> operation_validateResponse sample_env getUserLogin (Some 200)
        (Some (plainObject [(''content-type'', JStr ''text/plain'')])) (JStr ''token'') JUndefined =
       Inr \<lparr>errors =
              [\<lparr>e_code = ''INVALID_CONTENT_TYPE'', e_errors = None,
                e_message = ''Invalid Content-Type (text/plain).  These are supported: application/xml, application/json'',
                e_name = None, e_path = Some []\<rparr>],
            warnings = []\<rparr>"
  by (simp add: declaresResponse_def operation_validateResponse_def resolveResponse_def
      getUserLogin_def loginResponse_def string_of_nat.simps response_defs sample_defs)

text \<open>
  Claim C3, amended. If the operation declares neither \<^verbatim>\<open>responses[code]\<close> nor
  \<^verbatim>\<open>responses.default\<close>, the result is the single \<^verbatim>\<open>INVALID_RESPONSE_CODE\<close> error; hence a result
  with \<^verbatim>\<open>errors == []\<close> implies that one of them is declared. If one is declared, the result is
  that of \<^verbatim>\<open>Response.validateResponse\<close> on the resolved response (with the headers and body
  passed along), which is empty of errors when that response has neither schema nor headers. A
  returned result is free of \<^verbatim>\<open>INVALID_RESPONSE_CODE\<close> errors if and only if a response is
  declared.
\<close>

theorem operation_validateResponse_errors:
  "(\<not> declaresResponse oper sc \<longrightarrow>
      operation_validateResponse E oper sc hdrs body enc =
        Inr \<lparr>errors = [invalidResponseCode sc], warnings = []\<rparr>)
   \<and> (\<forall>res. operation_validateResponse E oper sc hdrs body enc = Inr res \<and> errors res = []
          \<longrightarrow> declaresResponse oper sc)
   \<and> (declaresResponse oper sc \<longrightarrow>
        (\<exists>r. resolveResponse oper sc = Some r
           \<and> operation_validateResponse E oper sc hdrs body enc =
               validateResponse E r hdrs body enc
           \<and> (definition_schema r = None \<and> headers r = [] \<longrightarrow>
                operation_validateResponse E oper sc hdrs body enc =
                  Inr \<lparr>errors = [], warnings = []\<rparr>)))
   \<and> (\<forall>res. operation_validateResponse E oper sc hdrs body enc = Inr res \<longrightarrow>
          (declaresResponse oper sc \<longleftrightarrow>
             (\<forall>e \<in> set (errors res). e_code e \<noteq> ''INVALID_RESPONSE_CODE'')))"
proof (cases "resolveResponse oper sc")
  case None
  then have nd: "\<not> declaresResponse oper sc"
    using resolveResponse_declares [of oper sc] by simp
  have res: "operation_validateResponse E oper sc hdrs body enc =
      Inr \<lparr>errors = [invalidResponseCode sc], warnings = []\<rparr>"
    using None by (simp add: operation_validateResponse_def)
  have "e_code (invalidResponseCode sc) = ''INVALID_RESPONSE_CODE''"
    by (simp add: invalidResponseCode_def)
  with nd res show ?thesis
    by auto
next
  case (Some r)
  then have d: "declaresResponse oper sc"
    using resolveResponse_declares [of oper sc] by simp
  have res: "operation_validateResponse E oper sc hdrs body enc =
      validateResponse E r hdrs body enc"
    using Some by (simp add: operation_validateResponse_def)
  have void: "validateResponse E r hdrs body enc = Inr \<lparr>errors = [], warnings = []\<rparr>"
    if "definition_schema r = None" and "headers r = []"
    using that by (simp add: validateResponse_no_body hasBody_def)
  have codes: "e_code e \<noteq> ''INVALID_RESPONSE_CODE''"
    if "validateResponse E r hdrs body enc = Inr res" and "e \<in> set (errors res)" for res e
    using validateResponse_codes [OF that] by auto
  from d Some res void codes show ?thesis
    by auto
qed


text \<open>\<^verbatim>\<open>validateResponse(201)\<close> on \<^verbatim>\<open>POST /pet\<close> (no match) and on \<^verbatim>\<open>POST /user\<close> (default).\<close>

theorem operation_validateResponse_errors_witness:
  "\<not> declaresResponse postPet (Some 201)
   \<and> operation_validateResponse sample_env postPet (Some 201) None
        JUndefined JUndefined =
       Inr \<lparr>errors = [invalidResponseCode (Some 201)], warnings = []\<rparr>
   \<and> declaresResponse postUser (Some 201)
   \<and> operation_validateResponse sample_env postUser (Some 201) None
        JUndefined JUndefined =
       Inr \<lparr>errors = [], warnings = []\<rparr>"
proof -
  have str: "string_of_nat 201 = ''201''"
    by (simp add: string_of_nat.simps)
  have nd: "\<not> declaresResponse postPet (Some 201)"
    by (simp add: declaresResponse_def postPet_def str)
  have d: "declaresResponse postUser (Some 201)"
    by (simp add: declaresResponse_def postUser_def)
  have get: "resolveResponse postUser (Some 201) = Some defaultResponse"
    by (simp add: resolveResponse_def postUser_def str)
  have void: "definition_schema defaultResponse = None \<and> headers defaultResponse = []"
    by (simp add: defaultResponse_def)
  from operation_validateResponse_errors [of postPet "Some 201" sample_env None
      JUndefined JUndefined] nd
  have r1: "operation_validateResponse sample_env postPet (Some 201) None
        JUndefined JUndefined =
       Inr \<lparr>errors = [invalidResponseCode (Some 201)], warnings = []\<rparr>"
    by blast
  from operation_validateResponse_errors [of postUser "Some 201" sample_env None
      JUndefined JUndefined] d
  obtain r where "resolveResponse postUser (Some 201) = Some r"
    and "definition_schema r = None \<and> headers r = [] \<longrightarrow>
          operation_validateResponse sample_env postUser (Some 201) None
            JUndefined JUndefined = Inr \<lparr>errors = [], warnings = []\<rparr>"
    by blast
  with get void
  have r2: "operation_validateResponse sample_env postUser (Some 201) None
        JUndefined JUndefined = Inr \<lparr>errors = [], warnings = []\<rparr>"
    by simp
  from nd r1 d r2 show ?thesis
    by blast
qed

section \<open>Content-Type negotiation of requests\<close>

lemma stripParameters_parameters:
  assumes "CHR '';'' \<notin> set mediaType"
  shows "stripParameters (mediaType @ CHR '';'' # params) = mediaType"
  using assms by (induction mediaType) (auto simp: stripParameters_def)

text \<open>
  Claim C7. In the Content-Type negotiation of \<^verbatim>\<open>validateRequest\<close>, an absent Content-Type is
  treated as \<^verbatim>\<open>application/octet-stream\<close>, and yields the \<^verbatim>\<open>INVALID_CONTENT_TYPE\<close> error when that
  type is not declared; a media type with parameters is accepted when its type/subtype portion
  is declared; a Content-Type that equals a declared entry as a full string, parameters
  included, is accepted; a Content-Type that matches in neither way is rejected with the
  \<^verbatim>\<open>INVALID_CONTENT_TYPE\<close> error. The request step applies this negotiation to the
  \<^verbatim>\<open>content-type\<close> header and the operation's \<^verbatim>\<open>consumes\<close> list.
\<close>

theorem content_type_negotiation:
  "validateContentType None supported res =
     validateContentType (Some ''application/octet-stream'') supported res
   \<and> (''application/octet-stream'' \<notin> set supported \<longrightarrow>
        validateContentType None supported res =
          push_error
            \<lparr>e_code = ''INVALID_CONTENT_TYPE'', e_errors = None,
             e_message = ''Invalid Content-Type (application/octet-stream).  '' @
                         ''These are supported: '' @ join supported,
             e_name = None, e_path = Some []\<rparr> res)
   \<and> (CHR '';'' \<notin> set mediaType \<and> mediaType \<in> set supported \<longrightarrow>
        validateContentType (Some (mediaType @ CHR '';'' # params)) supported res = res)
   \<and> (contentType \<in> set supported \<longrightarrow>
        validateContentType (Some contentType) supported res = res)
   \<and> (contentType \<notin> set supported \<and> stripParameters contentType \<notin> set supported \<longrightarrow>
        validateContentType (Some contentType) supported res =
          push_error
            \<lparr>e_code = ''INVALID_CONTENT_TYPE'', e_errors = None,
             e_message = ''Invalid Content-Type ('' @ stripParameters contentType @
                         '').  These are supported: '' @ join supported,
             e_name = None, e_path = Some []\<rparr> res)
   \<and> (consumes oper \<noteq> [] \<and> hasBodyParameter oper \<longrightarrow>
        validateRequestContentType oper h =
          validateContentType (h ''content-type'') (consumes oper)
            \<lparr>errors = [], warnings = []\<rparr>)"
proof -
  have strip: "stripParameters ''application/octet-stream'' = ''application/octet-stream''"
    by (simp add: stripParameters_def)
  have absent: "validateContentType None supported res =
     validateContentType (Some ''application/octet-stream'') supported res"
    by (simp add: validateContentType_def)
  have octet: "validateContentType None supported res =
          push_error
            \<lparr>e_code = ''INVALID_CONTENT_TYPE'', e_errors = None,
             e_message = ''Invalid Content-Type (application/octet-stream).  '' @
                         ''These are supported: '' @ join supported,
             e_name = None, e_path = Some []\<rparr> res"
    if "''application/octet-stream'' \<notin> set supported"
    using that by (simp add: validateContentType_def Let_def strip)
  have stripped: "validateContentType (Some (mediaType @ CHR '';'' # params)) supported res = res"
    if "CHR '';'' \<notin> set mediaType" and "mediaType \<in> set supported"
    using that by (simp add: validateContentType_def Let_def stripParameters_parameters)
  have exact: "validateContentType (Some contentType) supported res = res"
    if "contentType \<in> set supported"
    using that by (simp add: validateContentType_def Let_def)
  have reject: "validateContentType (Some contentType) supported res =
          push_error
            \<lparr>e_code = ''INVALID_CONTENT_TYPE'', e_errors = None,
             e_message = ''Invalid Content-Type ('' @ stripParameters contentType @
                         '').  These are supported: '' @ join supported,
             e_name = None, e_path = Some []\<rparr> res"
    if "contentType \<notin> set supported" and "stripParameters contentType \<notin> set supported"
    using that by (simp add: validateContentType_def Let_def)
  have request: "validateRequestContentType oper h =
          validateContentType (h ''content-type'') (consumes oper)
            \<lparr>errors = [], warnings = []\<rparr>"
    if "consumes oper \<noteq> []" and "hasBodyParameter oper"
    using that by (simp add: validateRequestContentType_def)
  from absent octet stripped exact reject request show ?thesis
    by blast
qed

text \<open>
  \<^verbatim>\<open>POST /pet\<close> consumes JSON and XML: a request without Content-Type is rejected as
  \<^verbatim>\<open>application/octet-stream\<close>, one with \<^verbatim>\<open>application/json; charset=utf-8\<close> is accepted, and
  with \<^verbatim>\<open>application/x-yaml; charset=utf-8\<close> added to \<^verbatim>\<open>consumes\<close> that exact Content-Type is
  accepted.
\<close>

theorem content_type_negotiation_witness:
  "''application/octet-stream'' \<notin> set (consumes postPet)
   \<and> consumes postPet \<noteq> []
   \<and> hasBodyParameter postPet
   \<and> validateRequestContentType postPet Map.empty =
       \<lparr>errors =
          [\<lparr>e_code = ''INVALID_CONTENT_TYPE'', e_errors = None,
            e_message = ''Invalid Content-Type (application/octet-stream).  These are supported: application/json, application/xml'',
            e_name = None, e_path = Some []\<rparr>],
        warnings = []\<rparr>
   \<and> CHR '';'' \<notin> set ''application/json''
   \<and> ''application/json'' \<in> set (consumes postPet)
   \<and> validateRequestContentType postPet
        [''content-type'' \<mapsto> ''application/json; charset=utf-8''] =
       \<lparr>errors = [], warnings = []\<rparr>
   \<and> ''application/x-yaml; charset=utf-8''
        \<in> set (consumes postPet @ [''application/x-yaml; charset=utf-8''])
   \<and> validateRequestContentType
        (postPet\<lparr>consumes := consumes postPet @ [''application/x-yaml; charset=utf-8'']\<rparr>)
        [''content-type'' \<mapsto> ''application/x-yaml; charset=utf-8''] =
       \<lparr>errors = [], warnings = []\<rparr>"
proof -
  let ?empty = "\<lparr>errors = [], warnings = []\<rparr>"
  let ?yaml = "''application/x-yaml; charset=utf-8''"
  let ?withYaml = "postPet\<lparr>consumes := consumes postPet @ [?yaml]\<rparr>"
  have no_octet: "''application/octet-stream'' \<notin> set (consumes postPet)"
    and consumes: "consumes postPet \<noteq> []"
    and bodyParam: "hasBodyParameter postPet"
    and no_semi: "CHR '';'' \<notin> set ''application/json''"
    and json: "''application/json'' \<in> set (consumes postPet)"
    and yaml: "?yaml \<in> set (consumes postPet @ [?yaml])"
    by (simp_all add: postPet_def hasBodyParameter_def)
  have consumes': "consumes ?withYaml \<noteq> []" and bodyParam': "hasBodyParameter ?withYaml"
    and yaml': "?yaml \<in> set (consumes ?withYaml)"
    by (simp_all add: postPet_def hasBodyParameter_def)
  note absent = content_type_negotiation [where supported = "consumes postPet" and res = ?empty
      and oper = postPet and h = Map.empty and mediaType = "''application/json''"
      and params = "'' charset=utf-8''" and contentType = ?yaml]
  note charset = content_type_negotiation [where supported = "consumes postPet" and res = ?empty
      and oper = postPet and h = "[''content-type'' \<mapsto> ''application/json; charset=utf-8'']"
      and mediaType = "''application/json''"
      and params = "'' charset=utf-8''" and contentType = ?yaml]
  note exact = content_type_negotiation [where supported = "consumes ?withYaml" and res = ?empty
      and oper = ?withYaml and h = "[''content-type'' \<mapsto> ?yaml]"
      and mediaType = "''application/json''"
      and params = "'' charset=utf-8''" and contentType = ?yaml]
  from absent consumes bodyParam
  have "validateRequestContentType postPet Map.empty =
       validateContentType (Map.empty ''content-type'') (consumes postPet) ?empty"
    by blast
  then have req: "validateRequestContentType postPet Map.empty =
       validateContentType None (consumes postPet) ?empty"
    by simp
  from absent no_octet
  have "validateContentType None (consumes postPet) ?empty =
       push_error
            \<lparr>e_code = ''INVALID_CONTENT_TYPE'', e_errors = None,
             e_message = ''Invalid Content-Type (application/octet-stream).  '' @
                         ''These are supported: '' @ join (consumes postPet),
             e_name = None, e_path = Some []\<rparr> ?empty"
    by blast
  with req have r1: "validateRequestContentType postPet Map.empty =
       push_error
            \<lparr>e_code = ''INVALID_CONTENT_TYPE'', e_errors = None,
             e_message = ''Invalid Content-Type (application/octet-stream).  '' @
                         ''These are supported: '' @ join (consumes postPet),
             e_name = None, e_path = Some []\<rparr> ?empty"
    by (simp only:)
  then have r1': "validateRequestContentType postPet Map.empty =
       \<lparr>errors =
          [\<lparr>e_code = ''INVALID_CONTENT_TYPE'', e_errors = None,
            e_message = ''Invalid Content-Type (application/octet-stream).  These are supported: application/json, application/xml'',
            e_name = None, e_path = Some []\<rparr>],
        warnings = []\<rparr>"
    by (simp add: push_error_def postPet_def)
  from charset no_semi json consumes bodyParam
  have r2: "validateRequestContentType postPet
        [''content-type'' \<mapsto> ''application/json; charset=utf-8''] = ?empty"
    by simp
  from exact yaml' consumes' bodyParam'
  have r3: "validateRequestContentType ?withYaml [''content-type'' \<mapsto> ?yaml] = ?empty"
    by simp
  from no_octet consumes bodyParam r1' no_semi json r2 yaml r3 show ?thesis
    by blast
qed

section \<open>Effective consumes\<close>

text \<open>
  Claim C8. The effective \<^verbatim>\<open>consumes\<close> of an operation is the operation-level list when that
  list is non-empty; an omitted or empty operation-level list gives the document-level list.
\<close>

theorem effective_consumes:
  "(\<forall>c cs. operationLevel = Some (c # cs) \<longrightarrow>
        effectiveConsumes documentLevel operationLevel = c # cs)
   \<and> (operationLevel = None \<or> operationLevel = Some [] \<longrightarrow>
        effectiveConsumes documentLevel operationLevel =
          (case documentLevel of None \<Rightarrow> [] | Some ds \<Rightarrow> ds))"
  by (auto simp: effectiveConsumes_def)

text \<open>
  An operation-level list, an omitted one and an empty one, over a document-level list; with
  the operation-level list of \<^verbatim>\<open>POST /pet\<close> moved to the document level, a YAML request is
  rejected against the document-level types.
\<close>

theorem effective_consumes_witness:
  "effectiveConsumes (Some [''application/json'', ''application/xml''])
      (Some [''application/x-www-form-urlencoded'']) = [''application/x-www-form-urlencoded'']
   \<and> effectiveConsumes (Some [''application/json'', ''application/xml'']) None =
       [''application/json'', ''application/xml'']
   \<and> effectiveConsumes (Some [''application/json'', ''application/xml'']) (Some []) =
       [''application/json'', ''application/xml'']
   \<and> effectiveConsumes None (Some []) = []
   \<and> validateRequestContentType
        (postPet\<lparr>consumes :=
           effectiveConsumes (Some [''application/json'', ''application/xml'']) None\<rparr>)
        [''content-type'' \<mapsto> ''application/x-yaml''] =
       \<lparr>errors =
          [\<lparr>e_code = ''INVALID_CONTENT_TYPE'', e_errors = None,
            e_message = ''Invalid Content-Type (application/x-yaml).  These are supported: application/json, application/xml'',
            e_name = None, e_path = Some []\<rparr>],
        warnings = []\<rparr>"
proof -
  have global: "effectiveConsumes (Some [''application/json'', ''application/xml'']) None =
       [''application/json'', ''application/xml'']"
    using effective_consumes [of None "Some [''application/json'', ''application/xml'']"]
    by simp
  have request: "validateRequestContentType
        (postPet\<lparr>consumes := [''application/json'', ''application/xml'']\<rparr>)
        [''content-type'' \<mapsto> ''application/x-yaml''] =
       \<lparr>errors =
          [\<lparr>e_code = ''INVALID_CONTENT_TYPE'', e_errors = None,
            e_message = ''Invalid Content-Type (application/x-yaml).  These are supported: application/json, application/xml'',
            e_name = None, e_path = Some []\<rparr>],
        warnings = []\<rparr>"
    by (simp add: validateRequestContentType_def validateContentType_def stripParameters_def
        hasBodyParameter_def push_error_def postPet_def)
  from global request
    effective_consumes [of "Some [''application/x-www-form-urlencoded'']"
      "Some [''application/json'', ''application/xml'']"]
    effective_consumes [of "Some []" "Some [''application/json'', ''application/xml'']"]
    effective_consumes [of "Some []" None]
  show ?thesis
    by simp
qed

section \<open>Composition of parameters\<close>

lemma keys_upsert:
  "param_key ` set (upsert p qs) = insert (param_key p) (param_key ` set qs)"
  by (induction qs) auto

lemma distinct_upsert:
  assumes "distinct (map param_key qs)"
  shows "distinct (map param_key (upsert p qs))"
  using assms
proof (induction qs)
  case Nil
  show ?case by simp
next
  case (Cons q qs)
  have "param_key q \<notin> param_key ` set (upsert p qs)" if "param_key q \<noteq> param_key p"
    using that Cons.prems by (simp add: keys_upsert)
  with Cons show ?case
    by auto
qed

lemma keys_fold_upsert:
  "param_key ` set (fold upsert xs acc) = param_key ` set acc \<union> param_key ` set xs"
  by (induction xs arbitrary: acc) (auto simp: keys_upsert)

lemma distinct_fold_upsert:
  assumes "distinct (map param_key acc)"
  shows "distinct (map param_key (fold upsert xs acc))"
  using assms by (induction xs arbitrary: acc) (auto simp: distinct_upsert)

lemma lookup_upsert_same:
  "map_of (map (\<lambda>q. (param_key q, q)) (upsert p qs)) (param_key p) = Some p"
  by (induction qs) simp_all

lemma lookup_upsert_other:
  assumes "k \<noteq> param_key p"
  shows "map_of (map (\<lambda>q. (param_key q, q)) (upsert p qs)) k =
     map_of (map (\<lambda>q. (param_key q, q)) qs) k"
  using assms by (induction qs) simp_all

lemma lookup_upsert_at:
  "map_of (map (\<lambda>q. (param_key q, q)) (upsert p qs)) k =
     (if k = param_key p then Some p else map_of (map (\<lambda>q. (param_key q, q)) qs) k)"
  by (simp add: lookup_upsert_same lookup_upsert_other)

lemma lookup_upsert:
  "map_of (map (\<lambda>q. (param_key q, q)) (upsert p qs)) =
     (map_of (map (\<lambda>q. (param_key q, q)) qs))(param_key p \<mapsto> p)"
  by (rule ext) (simp add: lookup_upsert_at)

lemma lookup_fold_upsert:
  "map_of (map (\<lambda>q. (param_key q, q)) (fold upsert xs acc)) =
     map_of (map (\<lambda>q. (param_key q, q)) acc) ++ map_of (rev (map (\<lambda>q. (param_key q, q)) xs))"
proof (induction xs arbitrary: acc)
  case Nil
  show ?case by simp
next
  case (Cons x xs)
  have "map_of (map (\<lambda>q. (param_key q, q)) (fold upsert (x # xs) acc)) =
      map_of (map (\<lambda>q. (param_key q, q)) (upsert x acc)) ++
        map_of (rev (map (\<lambda>q. (param_key q, q)) xs))"
    by (simp add: Cons.IH)
  also have "\<dots> = (map_of (map (\<lambda>q. (param_key q, q)) acc) ++ [param_key x \<mapsto> x]) ++
        map_of (rev (map (\<lambda>q. (param_key q, q)) xs))"
    by (simp add: lookup_upsert)
  also have "\<dots> = map_of (map (\<lambda>q. (param_key q, q)) acc) ++
        map_of (rev (map (\<lambda>q. (param_key q, q)) (x # xs)))"
    by (simp add: map_add_assoc [symmetric])
  finally show ?case .
qed

lemma upsert_new:
  assumes "param_key p \<notin> param_key ` set qs"
  shows "upsert p qs = qs @ [p]"
  using assms by (induction qs) auto

lemma fold_upsert_distinct:
  assumes "distinct (map param_key (acc @ xs))"
  shows "fold upsert xs acc = acc @ xs"
  using assms
proof (induction xs arbitrary: acc)
  case Nil
  show ?case by simp
next
  case (Cons x xs)
  from Cons.prems have new: "param_key x \<notin> param_key ` set acc"
    by auto
  from Cons.prems have "distinct (map param_key ((acc @ [x]) @ xs))"
    by simp
  then have "fold upsert xs (acc @ [x]) = (acc @ [x]) @ xs"
    by (rule Cons.IH)
  with new show ?case
    by (simp add: upsert_new)
qed

lemma member_lookup:
  assumes "distinct (map param_key qs)" and "q \<in> set qs"
  shows "map_of (map (\<lambda>q. (param_key q, q)) qs) (param_key q) = Some q"
proof -
  have "map fst (map (\<lambda>q. (param_key q, q)) qs) = map param_key qs"
    by (induction qs) simp_all
  with assms(1) have "distinct (map fst (map (\<lambda>q. (param_key q, q)) qs))"
    by (simp only:)
  moreover from assms(2) have "(param_key q, q) \<in> set (map (\<lambda>q. (param_key q, q)) qs)"
    by auto
  ultimately show ?thesis
    by (rule map_of_is_SomeI)
qed

lemma lookup_member:
  assumes "map_of (rev (map (\<lambda>q. (param_key q, q)) qs)) k = Some q"
  shows "q \<in> set qs"
  using map_of_SomeD [OF assms] by auto

lemma lookup_None:
  "map_of (rev (map (\<lambda>q. (param_key q, q)) qs)) k = None \<longleftrightarrow> k \<notin> param_key ` set qs"
  by (simp add: map_of_eq_None_iff image_image)

text \<open>
  Claim C9. The composed parameters have pairwise different keys \<^verbatim>\<open>(name, in)\<close>; their keys are
  those of the path-level and operation-level parameters together, so the length of the list is
  the number of such keys. An entry whose key occurs at the operation level is an
  operation-level definition, every other entry is a path-level one; when the operation-level
  keys are pairwise different, every operation-level parameter is in the list. When no key is
  repeated at all, the list is the path-level parameters followed by the operation-level ones.
\<close>

theorem composeParameters_union:
  "distinct (map param_key (composeParameters pathLevel operationLevel))
   \<and> param_key ` set (composeParameters pathLevel operationLevel) =
       param_key ` (set pathLevel \<union> set operationLevel)
   \<and> length (composeParameters pathLevel operationLevel) =
       card (param_key ` (set pathLevel \<union> set operationLevel))
   \<and> (\<forall>q \<in> set (composeParameters pathLevel operationLevel).
         if param_key q \<in> param_key ` set operationLevel then q \<in> set operationLevel
         else q \<in> set pathLevel)
   \<and> (distinct (map param_key operationLevel) \<longrightarrow>
         set operationLevel \<subseteq> set (composeParameters pathLevel operationLevel))
   \<and> (distinct (map param_key (pathLevel @ operationLevel)) \<longrightarrow>
         composeParameters pathLevel operationLevel = pathLevel @ operationLevel)"
proof -
  let ?R = "composeParameters pathLevel operationLevel"
  let ?kv = "\<lambda>q. (param_key q, q)"
  have dist: "distinct (map param_key ?R)"
    by (simp add: composeParameters_def distinct_fold_upsert)
  have keys: "param_key ` set ?R = param_key ` (set pathLevel \<union> set operationLevel)"
    by (simp add: composeParameters_def keys_fold_upsert image_Un)
  have "length ?R = length (map param_key ?R)"
    by simp
  also have "\<dots> = card (set (map param_key ?R))"
    using dist by (simp only: distinct_card)
  also have "\<dots> = card (param_key ` (set pathLevel \<union> set operationLevel))"
    using keys by simp
  finally have len: "length ?R = card (param_key ` (set pathLevel \<union> set operationLevel))" .
  have look: "map_of (map ?kv ?R) =
      map_of (rev (map ?kv pathLevel)) ++ map_of (rev (map ?kv operationLevel))"
    by (simp add: composeParameters_def lookup_fold_upsert)
  have origin: "if param_key q \<in> param_key ` set operationLevel then q \<in> set operationLevel
      else q \<in> set pathLevel" if "q \<in> set ?R" for q
  proof -
    from dist that have at: "map_of (map ?kv ?R) (param_key q) = Some q"
      by (rule member_lookup)
    show ?thesis
    proof (cases "param_key q \<in> param_key ` set operationLevel")
      case True
      then have "map_of (rev (map ?kv operationLevel)) (param_key q) \<noteq> None"
        by (simp add: lookup_None)
      with at look have "map_of (rev (map ?kv operationLevel)) (param_key q) = Some q"
        by (auto simp: map_add_def split: option.splits)
      then have "q \<in> set operationLevel"
        by (rule lookup_member)
      with True show ?thesis by simp
    next
      case False
      then have "map_of (rev (map ?kv operationLevel)) (param_key q) = None"
        by (simp add: lookup_None)
      with at look have "map_of (rev (map ?kv pathLevel)) (param_key q) = Some q"
        by (simp add: map_add_def)
      then have "q \<in> set pathLevel"
        by (rule lookup_member)
      with False show ?thesis by simp
    qed
  qed
  have kept: "set operationLevel \<subseteq> set ?R" if d: "distinct (map param_key operationLevel)"
  proof
    fix p assume p: "p \<in> set operationLevel"
    from d have "distinct (map param_key (rev operationLevel))"
      by (simp add: rev_map [symmetric])
    moreover from p have "p \<in> set (rev operationLevel)"
      by simp
    ultimately have "map_of (map ?kv (rev operationLevel)) (param_key p) = Some p"
      by (rule member_lookup)
    then have "map_of (rev (map ?kv operationLevel)) (param_key p) = Some p"
      by (simp add: rev_map)
    with look have "map_of (map ?kv ?R) (param_key p) = Some p"
      by (simp add: map_add_def)
    from map_of_SomeD [OF this] show "p \<in> set ?R"
      by auto
  qed
  have same: "?R = pathLevel @ operationLevel"
    if "distinct (map param_key (pathLevel @ operationLevel))"
    using fold_upsert_distinct [of "[]" "pathLevel @ operationLevel"] that
    by (simp add: composeParameters_def)
  from dist keys len origin kept same show ?thesis
    by blast
qed

text \<open>
  \<^verbatim>\<open>POST /pet/{petId}\<close>: one path-level and two operation-level parameters compose to three.
  When the operation also redefines \<^verbatim>\<open>petId\<close>, the redefinition takes the place of the
  path-level definition and there are still three.
\<close>

theorem composeParameters_union_witness:
  "distinct (map param_key (petIdPathParameters @ petIdPostParameters))
   \<and> composeParameters petIdPathParameters petIdPostParameters =
       petIdPathParameters @ petIdPostParameters
   \<and> length (composeParameters petIdPathParameters petIdPostParameters) = 3
   \<and> composeParameters petIdPathParameters (petIdPostParameters @ [petIdRedefined]) =
       petIdRedefined # petIdPostParameters
   \<and> card (param_key ` (set petIdPathParameters \<union> set (petIdPostParameters @ [petIdRedefined])))
       = 3"
proof -
  have d: "distinct (map param_key (petIdPathParameters @ petIdPostParameters))"
    by (simp add: petIdPathParameters_def petIdPostParameters_def param_key_def)
  note plain = composeParameters_union [of petIdPathParameters petIdPostParameters]
  note over = composeParameters_union [of petIdPathParameters
      "petIdPostParameters @ [petIdRedefined]"]
  from plain d have same: "composeParameters petIdPathParameters petIdPostParameters =
      petIdPathParameters @ petIdPostParameters"
    by blast
  then have len: "length (composeParameters petIdPathParameters petIdPostParameters) = 3"
    by (simp add: petIdPathParameters_def petIdPostParameters_def)
  have repl: "composeParameters petIdPathParameters (petIdPostParameters @ [petIdRedefined]) =
      petIdRedefined # petIdPostParameters"
    by (simp add: composeParameters_def petIdPathParameters_def petIdPostParameters_def
        petIdRedefined_def param_key_def)
  from over have "length (composeParameters petIdPathParameters
        (petIdPostParameters @ [petIdRedefined])) =
      card (param_key ` (set petIdPathParameters \<union> set (petIdPostParameters @ [petIdRedefined])))"
    by blast
  with repl have c: "card (param_key ` (set petIdPathParameters
        \<union> set (petIdPostParameters @ [petIdRedefined]))) = 3"
    by (simp add: petIdPostParameters_def)
  from d same len repl c show ?thesis
    by blast
qed

end
